theory Spec2Isabelle
  imports Main
begin

section \<open>Strings and values of the host language\<close>

text \<open>
  Strings are modelled as \<^typ>\<open>string\<close>; a string is falsy exactly when it is empty.
  \<open>String.prototype.trim\<close> removes white space and line terminators from both ends;
  of these the code units below 256 are tab, line feed, vertical tab, form feed,
  carriage return, space and no-break space.
\<close>

definition isWhiteSpace :: "char \<Rightarrow> bool" where
  "isWhiteSpace c =
     (c \<in> set [CHR 0x09, CHR 0x0A, CHR 0x0B, CHR 0x0C, CHR 0x0D, CHR 0x20, CHR 0xA0])"

definition trim :: "string \<Rightarrow> string" where
  "trim s = rev (dropWhile isWhiteSpace (rev (dropWhile isWhiteSpace s)))"

text \<open>\<open>s.split('\n')\<close>: the pieces between line feeds, never an empty array.\<close>

fun split_nl :: "string \<Rightarrow> string list" where
  "split_nl [] = [[]]"
| "split_nl (c # cs) =
     (if c = CHR 0x0A then [] # split_nl cs
      else (case split_nl cs of [] \<Rightarrow> [[c]] | l # ls \<Rightarrow> (c # l) # ls))"

text \<open>\<open>s.endsWith(t)\<close>.\<close>

definition endsWith :: "string \<Rightarrow> string \<Rightarrow> bool" where
  "endsWith s t = (length t \<le> length s \<and> drop (length s - length t) s = t)"

text \<open>Decimal rendering of a number inside a template literal.\<close>

definition digit :: "nat \<Rightarrow> char" where
  "digit d = ''0123456789'' ! d"

fun show_nat :: "nat \<Rightarrow> string" where
  "show_nat n = (if n < 10 then [digit n] else show_nat (n div 10) @ [digit (n mod 10)])"

definition show_int :: "int \<Rightarrow> string" where
  "show_int i = (if i < 0 then CHR ''-'' # show_nat (nat (- i)) else show_nat (nat i))"

text \<open>
  Values produced by \<open>JSON.parse\<close>. An object keeps its members as an association
  list; a member read takes the entry \<open>map_of\<close> finds. \<open>JSON.parse\<close> itself belongs
  to the platform and is a parameter of every operation that calls it; it either
  throws or returns a value. Numbers are integers here: of a number the code asks
  only its type, whether it is zero and, for a call id, whether it equals another.
\<close>

datatype json =
    JNull
  | JBool bool
  | JNum int
  | JStr string
  | JArr "json list"
  | JObj "(string \<times> json) list"

datatype error = SyntaxError | TypeError | IOError

text \<open>Reading a member of a value held as \<open>Record<string, unknown>\<close>;
  \<open>None\<close> is \<open>undefined\<close>.\<close>

fun member :: "json \<Rightarrow> string \<Rightarrow> json option" where
  "member (JObj kvs) k = map_of kvs k"
| "member _ k = None"

fun truthy :: "json \<Rightarrow> bool" where
  "truthy JNull = False"
| "truthy (JBool b) = b"
| "truthy (JNum n) = (n \<noteq> 0)"
| "truthy (JStr s) = (s \<noteq> [])"
| "truthy (JArr _) = True"
| "truthy (JObj _) = True"

text \<open>\<open>typeof v === 'object'\<close> (true of \<open>null\<close>, arrays and objects).\<close>

fun typeof_object :: "json \<Rightarrow> bool" where
  "typeof_object JNull = True"
| "typeof_object (JArr _) = True"
| "typeof_object (JObj _) = True"
| "typeof_object _ = False"

fun typeof_string :: "json option \<Rightarrow> bool" where
  "typeof_string (Some (JStr _)) = True"
| "typeof_string _ = False"

fun typeof_number :: "json option \<Rightarrow> bool" where
  "typeof_number (Some (JNum _)) = True"
| "typeof_number _ = False"

text \<open>Truthiness of a value that may be \<open>undefined\<close>.\<close>

fun truthy_opt :: "json option \<Rightarrow> bool" where
  "truthy_opt None = False"
| "truthy_opt (Some v) = truthy v"

section \<open>MessageParser\<close>

text \<open>
  \<open>parseLine\<close> hands \<open>normalizeMessage\<close> whatever \<open>JSON.parse\<close> returned: the cast
  \<open>as RawStreamMessage\<close> checks nothing. The parser is therefore modelled on values of
  type \<^typ>\<open>json\<close>, not on the interfaces \<open>RawStreamMessage\<close> and \<open>ContentBlock\<close>. A
  member that is absent or \<open>undefined\<close> is \<open>None\<close>. Reading a member of \<open>null\<close> throws a
  \<open>TypeError\<close>; reading one of the members the parser asks for from a number, a
  string, a boolean or an array gives \<open>undefined\<close>, as \<open>member\<close> does.

  The fields of a \<open>ClaudeStreamMessage\<close> are filled from the decoded value without a
  check, so each of them holds any value or \<open>undefined\<close>.
\<close>

record ClaudeStreamMessage =
  msg_type :: "json option"
  msg_id :: "json option"
  msg_role :: "json option"
  msg_content :: "json option"
  msg_name :: "json option"
  msg_input :: "json option"
  msg_output :: "json option"
  msg_tool_use_id :: "json option"
  msg_is_error :: "json option"
  msg_subtype :: "json option"
  msg_session_id :: "json option"

text \<open>
  The table \<open>activeToolCalls\<close>: call id to the call's name and input. A \<open>Map\<close> compares
  keys that are strings, numbers or booleans by value and keys that are arrays or
  objects by identity. Every decoded array or object is a new one, so an entry stored
  under such a key is never found by a later \<open>get\<close> or \<open>delete\<close>; the table of the
  model holds the entries that a later call can find.
\<close>

fun byValue :: "json \<Rightarrow> bool" where
  "byValue (JArr xs) = False"
| "byValue (JObj kvs) = False"
| "byValue _ = True"

record MessageParser =
  activeToolCalls :: "json \<rightharpoonup> (json \<times> json)"

definition tableSet ::
  "json \<Rightarrow> json \<times> json \<Rightarrow> (json \<rightharpoonup> (json \<times> json)) \<Rightarrow> (json \<rightharpoonup> (json \<times> json))" where
  "tableSet k v t = (if byValue k then t(k \<mapsto> v) else t)"

definition tableGet :: "(json \<rightharpoonup> (json \<times> json)) \<Rightarrow> json \<Rightarrow> (json \<times> json) option" where
  "tableGet t k = (if byValue k then t k else None)"

definition tableDelete ::
  "json \<Rightarrow> (json \<rightharpoonup> (json \<times> json)) \<Rightarrow> (json \<rightharpoonup> (json \<times> json))" where
  "tableDelete k t = (if byValue k then t(k := None) else t)"

text \<open>An object literal that sets only \<open>type\<close> and \<open>session_id\<close>; the other
  literals of \<open>normalizeMessage\<close> are written as updates of it.\<close>

definition message :: "json option \<Rightarrow> json option \<Rightarrow> ClaudeStreamMessage" where
  "message t sid =
     \<lparr>msg_type = t, msg_id = None, msg_role = None, msg_content = None, msg_name = None,
      msg_input = None, msg_output = None, msg_tool_use_id = None, msg_is_error = None,
      msg_subtype = None, msg_session_id = sid\<rparr>"

text \<open>The functions below that take the decoded value \<open>raw\<close> are applied to a \<open>raw\<close>
  that is not \<open>null\<close>: \<open>normalizeMessage\<close> throws on \<open>null\<close> before it calls them.\<close>

definition baseMsg :: "json \<Rightarrow> ClaudeStreamMessage" where
  "baseMsg raw = message (member raw ''type'') (member raw ''session_id'')"

text \<open>\<open>raw.message?.content\<close>.\<close>

definition messageContent :: "json \<Rightarrow> json option" where
  "messageContent raw =
     (case member raw ''message'' of
        None \<Rightarrow> None
      | Some JNull \<Rightarrow> None
      | Some m \<Rightarrow> member m ''content'')"

text \<open>The value of \<open>raw.message?.content\<close> when it is truthy.\<close>

definition truthyContent :: "json \<Rightarrow> json option" where
  "truthyContent raw =
     (case messageContent raw of
        None \<Rightarrow> None
      | Some c \<Rightarrow> if truthy c then Some c else None)"

text \<open>\<open>block.input || {}\<close>.\<close>

definition inputOrEmpty :: "json option \<Rightarrow> json" where
  "inputOrEmpty i = (case i of None \<Rightarrow> JObj [] | Some v \<Rightarrow> if truthy v then v else JObj [])"

text \<open>\<open>a || b\<close>.\<close>

definition orElse :: "json option \<Rightarrow> json option \<Rightarrow> json option" where
  "orElse a b = (if truthy_opt a then a else b)"

text \<open>
  What \<open>for (const block of c)\<close> iterates over, for a truthy \<open>c\<close>: the elements of an
  array, the characters of a string (each a string of its own); any other value is
  not iterable and the loop throws a \<open>TypeError\<close>.
\<close>

fun iterate :: "json \<Rightarrow> error + json list" where
  "iterate (JArr xs) = Inr xs"
| "iterate (JStr s) = Inr (map (\<lambda>c. JStr [c]) s)"
| "iterate _ = Inl TypeError"

text \<open>
  A loop whose body may throw: the loop stops at the first exception. The state
  returned with an exception is the state the throwing iteration started from.
\<close>

fun forOf :: "('a \<Rightarrow> 's \<Rightarrow> error + 's) \<Rightarrow> 'a list \<Rightarrow> 's \<Rightarrow> error option \<times> 's" where
  "forOf body [] s = (None, s)"
| "forOf body (x # xs) s =
     (case body x s of
        Inl e \<Rightarrow> (Some e, s)
      | Inr s' \<Rightarrow> forOf body xs s')"

text \<open>The body of the loop over the blocks of an \<open>assistant\<close> record. Its first read,
  \<open>block.type\<close>, throws when the block is \<open>null\<close>.\<close>

definition assistantBlock ::
  "json \<Rightarrow> json \<Rightarrow> ClaudeStreamMessage list \<times> MessageParser
     \<Rightarrow> error + ClaudeStreamMessage list \<times> MessageParser" where
  "assistantBlock raw block st =
     (case st of (messages, p) \<Rightarrow>
        if block = JNull then Inl TypeError
        else if member block ''type'' = Some (JStr ''thinking'')
                \<and> truthy_opt (member block ''thinking'') then
          Inr (messages @ [(message (Some (JStr ''thinking'')) (member raw ''session_id''))
                             \<lparr>msg_content := member block ''thinking''\<rparr>], p)
        else if member block ''type'' = Some (JStr ''text'')
                \<and> truthy_opt (member block ''text'') then
          Inr (messages @ [(baseMsg raw)\<lparr>msg_content := member block ''text'',
                                          msg_role := Some (JStr ''assistant'')\<rparr>], p)
        else if member block ''type'' = Some (JStr ''tool_use'') then
          (let p' = (case (member block ''id'', member block ''name'') of
                       (Some i, Some n) \<Rightarrow>
                         if truthy i \<and> truthy n then
                           p\<lparr>activeToolCalls :=
                                tableSet i (n, inputOrEmpty (member block ''input''))
                                  (activeToolCalls p)\<rparr>
                         else p
                     | _ \<Rightarrow> p)
           in Inr (messages @ [(message (Some (JStr ''tool_use'')) (member raw ''session_id''))
                                 \<lparr>msg_id := member block ''id'',
                                  msg_name := member block ''name'',
                                  msg_input := member block ''input''\<rparr>], p'))
        else Inr (messages, p))"

text \<open>The body of the loop over the blocks of a \<open>user\<close> record.\<close>

definition userBlock ::
  "json \<Rightarrow> json \<Rightarrow> ClaudeStreamMessage list \<times> MessageParser
     \<Rightarrow> error + ClaudeStreamMessage list \<times> MessageParser" where
  "userBlock raw block st =
     (case st of (messages, p) \<Rightarrow>
        if block = JNull then Inl TypeError
        else (case member block ''tool_use_id'' of
                Some tid \<Rightarrow>
                  if member block ''type'' = Some (JStr ''tool_result'') \<and> truthy tid then
                    (let toolCall = tableGet (activeToolCalls p) tid
                     in Inr (messages @
                               [(message (Some (JStr ''tool_result'')) (member raw ''session_id''))
                                  \<lparr>msg_id := Some tid,
                                   msg_name := map_option fst toolCall,
                                   msg_input := map_option snd toolCall,
                                   msg_output := member block ''content'',
                                   msg_is_error := member raw ''is_error''\<rparr>],
                             p\<lparr>activeToolCalls := tableDelete tid (activeToolCalls p)\<rparr>))
                  else Inr (messages, p)
              | None \<Rightarrow> Inr (messages, p)))"

text \<open>The tail of \<open>normalizeMessage\<close>: the base message after the three updates for
  \<open>result\<close>, \<open>system\<close>/\<open>init\<close> and standalone \<open>tool_use\<close> records.\<close>

definition finishBase :: "json \<Rightarrow> ClaudeStreamMessage" where
  "finishBase raw =
     (let b0 = baseMsg raw;
          b1 = (if member raw ''type'' = Some (JStr ''result'') \<and> truthy_opt (member raw ''result'')
                then b0\<lparr>msg_content := member raw ''result''\<rparr> else b0);
          b2 = (if member raw ''type'' = Some (JStr ''system'')
                   \<and> member raw ''subtype'' = Some (JStr ''init'')
                then b1\<lparr>msg_subtype := Some (JStr ''init'')\<rparr> else b1);
          b3 = (if member raw ''type'' = Some (JStr ''tool_use'')
                then b2\<lparr>msg_name := orElse (member raw ''name'') (member raw ''tool_name''),
                        msg_input := member raw ''input''\<rparr> else b2)
      in b3)"

text \<open>
  \<open>normalizeMessage\<close> returns the messages or throws; either way the table is left
  as the blocks processed so far have made it. The first statement reads \<open>raw.type\<close>
  and throws when \<open>raw\<close> is \<open>null\<close>.
\<close>

definition normalizeMessage ::
  "json \<Rightarrow> MessageParser \<Rightarrow> (error + ClaudeStreamMessage list) \<times> MessageParser" where
  "normalizeMessage raw p =
     (if raw = JNull then (Inl TypeError, p)
      else
        (case (if member raw ''type'' = Some (JStr ''assistant'') then truthyContent raw
               else None) of
           Some c \<Rightarrow>
             (case iterate c of
                Inl e \<Rightarrow> (Inl e, p)
              | Inr blocks \<Rightarrow>
                  (case forOf (assistantBlock raw) blocks ([], p) of
                     (Some e, (messages, p')) \<Rightarrow> (Inl e, p')
                   | (None, (messages, p')) \<Rightarrow>
                       (Inr (if messages = [] then [baseMsg raw] else messages), p')))
         | None \<Rightarrow>
             (case (case (if member raw ''type'' = Some (JStr ''user'') then truthyContent raw
                          else None) of
                      Some c \<Rightarrow>
                        (case iterate c of
                           Inl e \<Rightarrow> (Some e, ([], p))
                         | Inr blocks \<Rightarrow> forOf (userBlock raw) blocks ([], p))
                    | None \<Rightarrow> (None, ([], p))) of
                (Some e, (messages, p')) \<Rightarrow> (Inl e, p')
              | (None, (messages, p')) \<Rightarrow>
                  if messages \<noteq> [] then (Inr messages, p')
                  else (Inr (messages @ [finishBase raw]), p'))))"

text \<open>
  \<open>parseLine\<close>. \<open>JSON.parse\<close> is a parameter: it throws or returns a value. The \<open>try\<close>
  block, \<open>parseLine_try\<close>, holds both the call of \<open>JSON.parse\<close> and the call of
  \<open>normalizeMessage\<close>, and the \<open>catch\<close> turns every exception into \<open>null\<close> (\<open>None\<close>).
  The result type keeps the exception alternative so that a caller sees whether the
  call can throw.
\<close>

type_synonym decoder = "string \<Rightarrow> error + json"

definition parseLine_try ::
  "decoder \<Rightarrow> string \<Rightarrow> MessageParser \<Rightarrow> (error + ClaudeStreamMessage list) \<times> MessageParser" where
  "parseLine_try JSON_parse trimmed p =
     (case JSON_parse trimmed of
        Inl e \<Rightarrow> (Inl e, p)
      | Inr raw \<Rightarrow> normalizeMessage raw p)"

definition parseLine ::
  "decoder \<Rightarrow> string \<Rightarrow> MessageParser
     \<Rightarrow> error + (ClaudeStreamMessage list option \<times> MessageParser)" where
  "parseLine JSON_parse line p =
     (let trimmed = trim line
      in if trimmed = [] then Inr (None, p)
         else (case parseLine_try JSON_parse trimmed p of
                 (Inl e, p') \<Rightarrow> Inr (None, p')
               | (Inr messages, p') \<Rightarrow> Inr (Some messages, p')))"

definition reset :: "MessageParser \<Rightarrow> MessageParser" where
  "reset p = p\<lparr>activeToolCalls := Map.empty\<rparr>"

subsection \<open>Notions used to state the parser's properties\<close>

text \<open>The blocks of \<open>raw.message?.content\<close> when it is an array, none otherwise.\<close>

definition contentBlocks :: "json \<Rightarrow> json list" where
  "contentBlocks raw = (case messageContent raw of Some (JArr blocks) \<Rightarrow> blocks | _ \<Rightarrow> [])"

text \<open>The event pushed for a \<open>tool_use\<close> block of an assistant record.\<close>

definition toolCallEvent :: "json \<Rightarrow> json \<Rightarrow> ClaudeStreamMessage" where
  "toolCallEvent raw block =
     (message (Some (JStr ''tool_use'')) (member raw ''session_id''))
       \<lparr>msg_id := member block ''id'', msg_name := member block ''name'',
        msg_input := member block ''input''\<rparr>"

text \<open>A \<open>tool_result\<close> block that refers to call \<open>i\<close>, and a \<open>tool_result\<close> event for
  call \<open>i\<close> that carries the name \<open>n\<close> and the input \<open>inp\<close>.\<close>

definition references :: "json \<Rightarrow> json \<Rightarrow> bool" where
  "references i block =
     (member block ''type'' = Some (JStr ''tool_result'') \<and> member block ''tool_use_id'' = Some i)"

definition isResultFor :: "json \<Rightarrow> json \<Rightarrow> json \<Rightarrow> ClaudeStreamMessage \<Rightarrow> bool" where
  "isResultFor i n inp m =
     (msg_type m = Some (JStr ''tool_result'') \<and> msg_id m = Some i \<and> msg_name m = Some n
      \<and> msg_input m = Some inp)"

text \<open>
  The decoded values on which \<open>normalizeMessage\<close> throws: \<open>null\<close>, and an \<open>assistant\<close> or
  \<open>user\<close> record whose truthy \<open>message.content\<close> cannot be iterated or holds a \<open>null\<close>
  block.
\<close>

definition brokenRecord :: "json \<Rightarrow> bool" where
  "brokenRecord raw =
     (raw = JNull
      \<or> ((member raw ''type'' = Some (JStr ''assistant'')
           \<or> member raw ''type'' = Some (JStr ''user''))
          \<and> (case truthyContent raw of
                None \<Rightarrow> False
              | Some c \<Rightarrow> (case iterate c of Inl e \<Rightarrow> True | Inr blocks \<Rightarrow> JNull \<in> set blocks))))"

section \<open>ClaudeCliService\<close>

text \<open>
  The service holds the handle of the process it spawned (\<open>null\<close> when idle), its
  parser and the single queued follow-up input. \<open>emitted\<close> lists, oldest first, what
  \<open>emit\<close> has handed to the listeners; \<open>sigterms\<close> lists the handles on which
  \<open>kill('SIGTERM')\<close> was called.
\<close>

type_synonym ChildProcess = nat

datatype Emitted = EmitMessage ClaudeStreamMessage | EmitPartial string

record ClaudeCliService =
  activeProcess :: "ChildProcess option"
  parser :: MessageParser
  queuedInput :: "string option"
  emitted :: "Emitted list"
  sigterms :: "ChildProcess list"

definition isRunning :: "'a ClaudeCliService_scheme \<Rightarrow> bool" where
  "isRunning s = (activeProcess s \<noteq> None)"

definition queueInput ::
  "string \<Rightarrow> 'a ClaudeCliService_scheme \<Rightarrow> bool \<times> 'a ClaudeCliService_scheme" where
  "queueInput input s =
     (if isRunning s then (True, s\<lparr>queuedInput := Some input\<rparr>) else (False, s))"

definition getAndClearQueuedInput ::
  "'a ClaudeCliService_scheme \<Rightarrow> string option \<times> 'a ClaudeCliService_scheme" where
  "getAndClearQueuedInput s = (queuedInput s, s\<lparr>queuedInput := None\<rparr>)"

definition hasQueuedInput :: "'a ClaudeCliService_scheme \<Rightarrow> bool" where
  "hasQueuedInput s = (queuedInput s \<noteq> None)"

definition abort :: "'a ClaudeCliService_scheme \<Rightarrow> 'a ClaudeCliService_scheme" where
  "abort s =
     (case activeProcess s of
        Some proc \<Rightarrow> s\<lparr>sigterms := proc # sigterms s, activeProcess := None\<rparr>
      | None \<Rightarrow> s)"

subsection \<open>One call of \<open>execute\<close>\<close>

text \<open>
  While a call of \<open>execute\<close> is in flight the state is the service together with the
  locals of the call that its callbacks close over. The call is driven by what the
  process and the caller do, in order: output chunks, the timer, \<open>abort()\<close>, and the
  \<open>close\<close> or \<open>error\<close> event that settles the promise.
\<close>

record Execution = ClaudeCliService +
  buffer :: string
  messages :: "ClaudeStreamMessage list"
  sessionId :: "json option"
  finalContent :: string
  stderrData :: string
  timeoutArmed :: bool

record ClaudeExecutionResult =
  r_success :: bool
  r_sessionId :: "json option"
  r_messages :: "ClaudeStreamMessage list"
  r_finalContent :: "string option"
  r_error :: "string option"

datatype Settlement = Resolved ClaudeExecutionResult | Rejected

datatype ProcessEvent =
    StdoutData string
  | StderrData string
  | TimeoutExpired
  | AbortCalled
  | Closed "int option"
  | Failed

text \<open>\<open>typeof parsed.content === 'string' ? parsed.content : ''\<close>.\<close>

fun content_string :: "json option \<Rightarrow> string" where
  "content_string (Some (JStr s)) = s"
| "content_string _ = []"

text \<open>The body of the loop over the messages parsed from one complete line.\<close>

definition handleParsed :: "ClaudeStreamMessage \<Rightarrow> Execution \<Rightarrow> Execution" where
  "handleParsed parsed x =
     (let x1 = x\<lparr>messages := messages x @ [parsed]\<rparr>;
          x2 = (if truthy_opt (msg_session_id parsed)
                then x1\<lparr>sessionId := msg_session_id parsed\<rparr> else x1);
          x3 = x2\<lparr>emitted := emitted x2 @ [EmitMessage parsed]\<rparr>;
          x4 = (if msg_type parsed = Some (JStr ''assistant'') \<and> truthy_opt (msg_content parsed)
                then x3\<lparr>finalContent := content_string (msg_content parsed),
                        emitted := emitted x3 @ [EmitPartial (content_string (msg_content parsed))]\<rparr>
                else x3);
          x5 = (if msg_type parsed = Some (JStr ''result'') \<and> truthy_opt (msg_content parsed)
                then x4\<lparr>finalContent := content_string (msg_content parsed),
                        emitted := emitted x4 @ [EmitPartial (content_string (msg_content parsed))]\<rparr>
                else x4)
      in x5)"

text \<open>The body of the loop over the complete lines of a chunk.\<close>

definition handleLine :: "decoder \<Rightarrow> string \<Rightarrow> Execution \<Rightarrow> Execution" where
  "handleLine JSON_parse line x =
     (if trim line = [] then x
      else (case parseLine JSON_parse line (parser x) of
              Inl e \<Rightarrow> x
            | Inr (None, p') \<Rightarrow> x\<lparr>parser := p'\<rparr>
            | Inr (Some parsedMessages, p') \<Rightarrow> fold handleParsed parsedMessages (x\<lparr>parser := p'\<rparr>)))"

definition onStdoutData :: "decoder \<Rightarrow> string \<Rightarrow> Execution \<Rightarrow> Execution" where
  "onStdoutData JSON_parse data x =
     (let lines = split_nl (buffer x @ data)
      in fold (handleLine JSON_parse) (butlast lines) (x\<lparr>buffer := last lines\<rparr>))"

definition onStderrData :: "string \<Rightarrow> Execution \<Rightarrow> Execution" where
  "onStderrData data x = x\<lparr>stderrData := stderrData x @ data\<rparr>"

definition onTimeout :: "Execution \<Rightarrow> Execution" where
  "onTimeout x =
     (if timeoutArmed x then
        (case activeProcess x of
           Some proc \<Rightarrow> x\<lparr>timeoutArmed := False, sigterms := proc # sigterms x\<rparr>
         | None \<Rightarrow> x\<lparr>timeoutArmed := False\<rparr>)
      else x)"

text \<open>The loop of the \<open>close\<close> handler over the messages parsed from the rest of the
  buffer.\<close>

definition handleFinal :: "ClaudeStreamMessage \<Rightarrow> Execution \<Rightarrow> Execution" where
  "handleFinal parsed x =
     (let x1 = x\<lparr>messages := messages x @ [parsed]\<rparr>
      in if msg_type parsed = Some (JStr ''result'') \<and> truthy_opt (msg_content parsed)
         then x1\<lparr>finalContent := content_string (msg_content parsed),
                 emitted := emitted x1 @ [EmitPartial (content_string (msg_content parsed))]\<rparr>
         else x1)"

definition flushBuffer :: "decoder \<Rightarrow> Execution \<Rightarrow> Execution" where
  "flushBuffer JSON_parse x =
     (if trim (buffer x) \<noteq> [] then
        (case parseLine JSON_parse (buffer x) (parser x) of
           Inl e \<Rightarrow> x
         | Inr (None, p') \<Rightarrow> x\<lparr>parser := p'\<rparr>
         | Inr (Some parsedMessages, p') \<Rightarrow> fold handleFinal parsedMessages (x\<lparr>parser := p'\<rparr>))
      else x)"

text \<open>\<open>`Process exited with code ${code}`\<close>; the code is \<open>null\<close> when a signal ended
  the process.\<close>

definition exitMessage :: "int option \<Rightarrow> string" where
  "exitMessage code =
     ''Process exited with code '' @ (case code of None \<Rightarrow> ''null'' | Some c \<Rightarrow> show_int c)"

definition resolveOutcome :: "int option \<Rightarrow> Execution \<Rightarrow> ClaudeExecutionResult" where
  "resolveOutcome code x =
     (if code = Some 0 \<or> finalContent x \<noteq> [] then
        \<lparr>r_success = True, r_sessionId = sessionId x, r_messages = messages x,
         r_finalContent = Some (finalContent x), r_error = None\<rparr>
      else
        \<lparr>r_success = False, r_sessionId = None, r_messages = messages x,
         r_finalContent = None,
         r_error = Some (if stderrData x \<noteq> [] then stderrData x else exitMessage code)\<rparr>)"

definition onClose :: "decoder \<Rightarrow> int option \<Rightarrow> Execution \<Rightarrow> ClaudeExecutionResult \<times> Execution" where
  "onClose JSON_parse code x =
     (let x1 = flushBuffer JSON_parse (x\<lparr>timeoutArmed := False, activeProcess := None\<rparr>)
      in (resolveOutcome code x1, x1))"

definition onError :: "Execution \<Rightarrow> Execution" where
  "onError x = x\<lparr>timeoutArmed := False, activeProcess := None\<rparr>"

text \<open>The start of \<open>execute\<close>: the process is spawned and the locals are initialised.\<close>

definition spawn :: "ChildProcess \<Rightarrow> ClaudeCliService \<Rightarrow> Execution" where
  "spawn proc s =
     \<lparr>activeProcess = Some proc, parser = parser s, queuedInput = queuedInput s,
      emitted = emitted s, sigterms = sigterms s,
      buffer = [], messages = [], sessionId = None, finalContent = [], stderrData = [],
      timeoutArmed = True\<rparr>"

text \<open>The callbacks run in the order of the events until \<open>close\<close> resolves the promise
  or \<open>error\<close> rejects it; \<open>None\<close> is a promise still pending when the events end.\<close>

fun drive :: "decoder \<Rightarrow> ProcessEvent list \<Rightarrow> Execution \<Rightarrow> Settlement option \<times> Execution" where
  "drive JSON_parse [] x = (None, x)"
| "drive JSON_parse (StdoutData d # es) x = drive JSON_parse es (onStdoutData JSON_parse d x)"
| "drive JSON_parse (StderrData d # es) x = drive JSON_parse es (onStderrData d x)"
| "drive JSON_parse (TimeoutExpired # es) x = drive JSON_parse es (onTimeout x)"
| "drive JSON_parse (AbortCalled # es) x = drive JSON_parse es (abort x)"
| "drive JSON_parse (Closed code # es) x =
     (case onClose JSON_parse code x of (r, x') \<Rightarrow> (Some (Resolved r), x'))"
| "drive JSON_parse (Failed # es) x = (Some Rejected, onError x)"

definition execute ::
  "decoder \<Rightarrow> ChildProcess \<Rightarrow> ProcessEvent list \<Rightarrow> ClaudeCliService
     \<Rightarrow> Settlement option \<times> Execution" where
  "execute JSON_parse proc events s = drive JSON_parse events (spawn proc s)"

subsection \<open>Notions used to state the properties of a run\<close>

text \<open>Events that leave the promise pending.\<close>

fun streaming :: "ProcessEvent \<Rightarrow> bool" where
  "streaming (Closed code) = False"
| "streaming Failed = False"
| "streaming _ = True"

text \<open>What the process wrote to its error channel.\<close>

fun stderrText :: "ProcessEvent list \<Rightarrow> string" where
  "stderrText [] = []"
| "stderrText (StderrData d # es) = d @ stderrText es"
| "stderrText (_ # es) = stderrText es"

text \<open>The session id of the last message that carries a non-empty one.\<close>

definition lastSessionId :: "ClaudeStreamMessage list \<Rightarrow> json option" where
  "lastSessionId ms =
     (if filter (\<lambda>m. truthy_opt (msg_session_id m)) ms = [] then None
      else msg_session_id (last (filter (\<lambda>m. truthy_opt (msg_session_id m)) ms)))"

definition tracked :: "Execution \<Rightarrow> bool" where
  "tracked x = (sessionId x = lastSessionId (messages x))"

text \<open>The messages that parsing the line buffer yields, and the text of the last
  \<open>result\<close> message with non-empty content among some messages (\<open>t\<close> if there is
  none).\<close>

definition bufferedEvents :: "decoder \<Rightarrow> Execution \<Rightarrow> ClaudeStreamMessage list" where
  "bufferedEvents JSON_parse x =
     (if trim (buffer x) = [] then []
      else (case parseLine JSON_parse (buffer x) (parser x) of
              Inr (Some parsedMessages, p') \<Rightarrow> parsedMessages
            | _ \<Rightarrow> []))"

definition isFinalResult :: "ClaudeStreamMessage \<Rightarrow> bool" where
  "isFinalResult m = (msg_type m = Some (JStr ''result'') \<and> truthy_opt (msg_content m))"

definition lastResultText :: "ClaudeStreamMessage list \<Rightarrow> string \<Rightarrow> string" where
  "lastResultText ms t =
     (if filter isFinalResult ms = [] then t
      else content_string (msg_content (last (filter isFinalResult ms))))"

text \<open>\<open>kill('SIGTERM')\<close> has been called on the process, and: the process is either
  still the active one with the timer armed, or has been sent the signal.\<close>

definition signalled :: "ChildProcess \<Rightarrow> Execution \<Rightarrow> bool" where
  "signalled proc x = (proc \<in> set (sigterms x))"

definition killable :: "ChildProcess \<Rightarrow> Execution \<Rightarrow> bool" where
  "killable proc x = ((activeProcess x = Some proc \<and> timeoutArmed x) \<or> signalled proc x)"

section \<open>SessionManager\<close>

text \<open>
  A session held by the manager is the object itself, either the literal built by
  \<open>createSession\<close> or the value \<open>JSON.parse\<close> returned for a stored file, so the map
  \<open>sessions\<close> holds \<^typ>\<open>json\<close> values.
\<close>

text \<open>The loop of \<open>isValidSession\<close> over \<open>session.messages\<close>.\<close>

fun validMessages :: "json list \<Rightarrow> bool" where
  "validMessages [] = True"
| "validMessages (msg # rest) =
     (if \<not> truthy msg \<or> \<not> typeof_object msg then False
      else if \<not> typeof_string (member msg ''id'') then False
      else if member msg ''role'' \<noteq> Some (JStr ''user'')
              \<and> member msg ''role'' \<noteq> Some (JStr ''assistant'') then False
      else validMessages rest)"

definition isValidSession :: "json \<Rightarrow> bool" where
  "isValidSession obj =
     (if \<not> truthy obj \<or> \<not> typeof_object obj then False
      else if \<not> typeof_string (member obj ''id'') \<or> member obj ''id'' = Some (JStr []) then False
      else (case member obj ''messages'' of
              Some (JArr msgs) \<Rightarrow>
                if \<not> typeof_number (member obj ''createdAt'') then False
                else if \<not> typeof_number (member obj ''updatedAt'') then False
                else validMessages msgs
            | _ \<Rightarrow> False))"

record SessionManager =
  sessions :: "string \<rightharpoonup> json"
  activeSessionId :: "string option"

text \<open>The part of the vault adapter that \<open>loadSessions\<close> calls; each call returns or
  throws.\<close>

record VaultAdapter =
  adapter_exists :: "string \<Rightarrow> error + bool"
  adapter_list :: "string \<Rightarrow> error + string list"
  adapter_read :: "string \<Rightarrow> error + string"

text \<open>The body of the loop of \<open>loadSessions\<close> over the listed files, with its own
  \<open>try\<close>/\<open>catch\<close>.\<close>

definition loadFile ::
  "(string \<Rightarrow> error + json) \<Rightarrow> VaultAdapter \<Rightarrow> string \<Rightarrow> SessionManager \<Rightarrow> SessionManager" where
  "loadFile JSON_parse adapter filePath m =
     (if endsWith filePath ''.json'' then
        (case adapter_read adapter filePath of
           Inl e \<Rightarrow> m
         | Inr content \<Rightarrow>
             (case JSON_parse content of
                Inl e \<Rightarrow> m
              | Inr parsed \<Rightarrow>
                  if \<not> isValidSession parsed then m
                  else (case member parsed ''id'' of
                          Some (JStr i) \<Rightarrow> m\<lparr>sessions := (sessions m)(i \<mapsto> parsed)\<rparr>
                        | _ \<Rightarrow> m)))
      else m)"

definition loadSessions ::
  "(string \<Rightarrow> error + json) \<Rightarrow> VaultAdapter \<Rightarrow> string \<Rightarrow> SessionManager \<Rightarrow> SessionManager" where
  "loadSessions JSON_parse adapter folderPath m =
     (case adapter_exists adapter folderPath of
        Inl e \<Rightarrow> m
      | Inr exists \<Rightarrow>
          if \<not> exists then m
          else (case adapter_list adapter folderPath of
                  Inl e \<Rightarrow> m
                | Inr files \<Rightarrow> fold (loadFile JSON_parse adapter) files m))"

text \<open>
  What \<open>createSession\<close> reads from its environment, in the order of the reads:
  \<open>Date.now()\<close> and \<open>Math.random().toString(36).slice(2, 11)\<close> for the id,
  \<open>new Date().toLocaleDateString()\<close> for the default name, and \<open>Date.now()\<close> once for
  \<open>createdAt\<close> and once more for \<open>updatedAt\<close>.
\<close>

record Readings =
  idNow :: int
  idRandom :: string
  localeDate :: string
  createdNow :: int
  updatedNow :: int

definition generateId :: "Readings \<Rightarrow> string" where
  "generateId env = ''session-'' @ show_int (idNow env) @ ''-'' @ idRandom env"

definition createSession ::
  "string option \<Rightarrow> Readings \<Rightarrow> SessionManager \<Rightarrow> json \<times> SessionManager" where
  "createSession name env m =
     (let newId = generateId env;
          session = JObj [
            (''id'', JStr newId),
            (''name'', JStr (case name of
                               Some n \<Rightarrow> if n \<noteq> [] then n else ''Chat '' @ localeDate env
                             | None \<Rightarrow> ''Chat '' @ localeDate env)),
            (''messages'', JArr []),
            (''context'', JArr []),
            (''createdAt'', JNum (createdNow env)),
            (''updatedAt'', JNum (updatedNow env))]
      in (session, m\<lparr>sessions := (sessions m)(newId \<mapsto> session), activeSessionId := Some newId\<rparr>))"

definition getSession :: "string \<Rightarrow> SessionManager \<Rightarrow> json option" where
  "getSession sid m = sessions m sid"

definition getActiveSession :: "SessionManager \<Rightarrow> json option" where
  "getActiveSession m =
     (case activeSessionId m of
        None \<Rightarrow> None
      | Some sid \<Rightarrow>
          if sid = [] then None
          else (case sessions m sid of
                  None \<Rightarrow> None
                | Some session \<Rightarrow> if truthy session then Some session else None))"

definition setActiveSession :: "string \<Rightarrow> SessionManager \<Rightarrow> SessionManager" where
  "setActiveSession sid m = m\<lparr>activeSessionId := Some sid\<rparr>"

text \<open>
  The vault as \<open>deleteSession\<close> sees it: what \<open>getAbstractFileByPath\<close> finds at a path,
  and the paths at which \<open>vault.delete\<close> throws.
\<close>

datatype AbstractFile = TFile string | TFolder

record Vault =
  entries :: "string \<rightharpoonup> AbstractFile"
  deleteFails :: "string \<Rightarrow> bool"

definition vault_delete :: "string \<Rightarrow> Vault \<Rightarrow> error + Vault" where
  "vault_delete path v =
     (if deleteFails v path then Inl IOError else Inr (v\<lparr>entries := (entries v)(path := None)\<rparr>))"

definition deleteSession ::
  "string \<Rightarrow> string \<Rightarrow> SessionManager \<times> Vault \<Rightarrow> SessionManager \<times> Vault" where
  "deleteSession sessionStoragePath sid st =
     (case st of (m, v) \<Rightarrow>
        (let filePath = sessionStoragePath @ ''/'' @ sid @ ''.json'';
             m' = m\<lparr>sessions := (sessions m)(sid := None)\<rparr>
         in (case entries v filePath of
               Some (TFile f) \<Rightarrow>
                 (case vault_delete filePath v of
                    Inl e \<Rightarrow> (m', v)
                  | Inr v' \<Rightarrow> (m', v'))
             | _ \<Rightarrow> (m', v))))"

subsection \<open>The validation of stored records as the specification words it\<close>

text \<open>
  The specification's reading of the validation, to be compared with \<open>isValidSession\<close>:
  a record is accepted when it has a string id, a message list, numeric \<open>createdAt\<close>
  and \<open>updatedAt\<close>, and every message has a string id and a role from the closed set
  \<open>user\<close>, \<open>assistant\<close>, \<open>system\<close> of the type \<open>ChatMessage\<close>.
\<close>

definition messagesOf :: "json \<Rightarrow> json list" where
  "messagesOf obj = (case member obj ''messages'' of Some (JArr msgs) \<Rightarrow> msgs | _ \<Rightarrow> [])"

definition closedRole :: "json option \<Rightarrow> bool" where
  "closedRole r =
     (r = Some (JStr ''user'') \<or> r = Some (JStr ''assistant'') \<or> r = Some (JStr ''system''))"

definition isArray :: "json option \<Rightarrow> bool" where
  "isArray v = (case v of Some (JArr xs) \<Rightarrow> True | _ \<Rightarrow> False)"

definition recordAsClaimed :: "json \<Rightarrow> bool" where
  "recordAsClaimed obj =
     (typeof_string (member obj ''id'')
      \<and> isArray (member obj ''messages'')
      \<and> typeof_number (member obj ''createdAt'')
      \<and> typeof_number (member obj ''updatedAt'')
      \<and> list_all (\<lambda>msg. typeof_string (member msg ''id'') \<and> closedRole (member msg ''role''))
           (messagesOf obj))"

section \<open>Sample inputs\<close>

text \<open>Concrete states and inputs at which the properties below are exercised.\<close>

definition sampleService :: ClaudeCliService where
  "sampleService =
     \<lparr>activeProcess = Some 1, parser = \<lparr>activeToolCalls = Map.empty\<rparr>, queuedInput = None,
      emitted = [], sigterms = []\<rparr>"

definition sampleSession :: "string \<Rightarrow> json" where
  "sampleSession sid =
     JObj [(''id'', JStr sid), (''name'', JStr ''Chat''), (''messages'', JArr []),
           (''context'', JArr []), (''createdAt'', JNum 1000), (''updatedAt'', JNum 2000)]"

definition sampleManager :: SessionManager where
  "sampleManager =
     \<lparr>sessions = [''a'' \<mapsto> sampleSession ''a'', ''b'' \<mapsto> sampleSession ''b''],
      activeSessionId = Some ''a''\<rparr>"

fun alwaysFails :: "string \<Rightarrow> bool" where
  "alwaysFails path = True"

definition lockedVault :: Vault where
  "lockedVault =
     \<lparr>entries = [''.claude-sessions/a.json'' \<mapsto> TFile ''a.json''], deleteFails = alwaysFails\<rparr>"

definition emptyManager :: SessionManager where
  "emptyManager = \<lparr>sessions = Map.empty, activeSessionId = None\<rparr>"

text \<open>A clock that advances between the two reads for the time stamps, and one that
  does not.\<close>

definition tickingClock :: Readings where
  "tickingClock =
     \<lparr>idNow = 1767225600999, idRandom = ''k3x9w2a1b'', localeDate = ''1/1/2026'',
      createdNow = 1767225600999, updatedNow = 1767225601000\<rparr>"

definition steadyClock :: Readings where
  "steadyClock =
     \<lparr>idNow = 1767225600500, idRandom = ''z8y7x6w5v'', localeDate = ''1/1/2026'',
      createdNow = 1767225600500, updatedNow = 1767225600500\<rparr>"

text \<open>A stored record whose id is the empty string, and a storage folder with one
  record that passes the validation and one that lacks \<open>updatedAt\<close>. \<open>sampleJSON\<close>
  decodes the two file contents as \<open>JSON.parse\<close> does and throws on any other text.\<close>

definition emptyIdRecord :: json where
  "emptyIdRecord =
     JObj [(''id'', JStr ''''), (''name'', JStr ''Chat''), (''messages'', JArr []),
           (''context'', JArr []), (''createdAt'', JNum 1000), (''updatedAt'', JNum 2000)]"

definition systemRoleRecord :: json where
  "systemRoleRecord =
     JObj [(''id'', JStr ''s3''), (''name'', JStr ''Chat''),
           (''messages'', JArr [JObj [(''id'', JStr ''m1''), (''role'', JStr ''system''),
                                      (''content'', JStr ''note''), (''timestamp'', JNum 5)]]),
           (''context'', JArr []), (''createdAt'', JNum 1000), (''updatedAt'', JNum 2000)]"

definition goodText :: string where
  \<open>goodText = ''{"id":"s1","name":"Chat","messages":[{"id":"m1","role":"user","content":"hi","timestamp":5}],"context":[],"createdAt":1000,"updatedAt":2000}''\<close>

definition goodRecord :: json where
  "goodRecord =
     JObj [(''id'', JStr ''s1''), (''name'', JStr ''Chat''),
           (''messages'', JArr [JObj [(''id'', JStr ''m1''), (''role'', JStr ''user''),
                                      (''content'', JStr ''hi''), (''timestamp'', JNum 5)]]),
           (''context'', JArr []), (''createdAt'', JNum 1000), (''updatedAt'', JNum 2000)]"

definition badText :: string where
  \<open>badText = ''{"id":"s2","name":"Chat","messages":[],"context":[],"createdAt":1000}''\<close>

definition badRecord :: json where
  "badRecord =
     JObj [(''id'', JStr ''s2''), (''name'', JStr ''Chat''), (''messages'', JArr []),
           (''context'', JArr []), (''createdAt'', JNum 1000)]"

definition sampleJSON :: "string \<Rightarrow> error + json" where
  "sampleJSON text =
     (if text = goodText then Inr goodRecord
      else if text = badText then Inr badRecord
      else Inl SyntaxError)"

fun sampleExists :: "string \<Rightarrow> error + bool" where
  "sampleExists path = Inr True"

fun sampleList :: "string \<Rightarrow> error + string list" where
  "sampleList path = Inr [''.claude-sessions/s1.json'', ''.claude-sessions/s2.json'']"

definition sampleRead :: "string \<Rightarrow> error + string" where
  "sampleRead path =
     (if path = ''.claude-sessions/s1.json'' then Inr goodText
      else if path = ''.claude-sessions/s2.json'' then Inr badText
      else Inl IOError)"

definition sampleAdapter :: VaultAdapter where
  "sampleAdapter =
     \<lparr>adapter_exists = sampleExists, adapter_list = sampleList, adapter_read = sampleRead\<rparr>"

text \<open>Output lines of the agent and the values \<open>JSON.parse\<close> returns for them.
  \<open>sampleDecoder\<close> decodes exactly these lines and throws on any other text.\<close>

definition emptyParser :: MessageParser where
  "emptyParser = \<lparr>activeToolCalls = Map.empty\<rparr>"

definition idleService :: ClaudeCliService where
  "idleService =
     \<lparr>activeProcess = None, parser = emptyParser, queuedInput = None, emitted = [],
      sigterms = []\<rparr>"

text \<open>A record with the members \<open>type\<close>, \<open>session_id\<close> and \<open>message.content\<close>.\<close>

definition rawMessage :: "string \<Rightarrow> string \<Rightarrow> json list \<Rightarrow> json" where
  "rawMessage t sid blocks =
     JObj [(''type'', JStr t), (''session_id'', JStr sid),
           (''message'', JObj [(''content'', JArr blocks)])]"

definition textBlock :: "string \<Rightarrow> json" where
  "textBlock t = JObj [(''type'', JStr ''text''), (''text'', JStr t)]"

definition toolUseBlock :: "string \<Rightarrow> string \<Rightarrow> json \<Rightarrow> json" where
  "toolUseBlock i n inp =
     JObj [(''type'', JStr ''tool_use''), (''id'', JStr i), (''name'', JStr n), (''input'', inp)]"

definition toolResultBlock :: "string \<Rightarrow> string \<Rightarrow> json" where
  "toolResultBlock i out =
     JObj [(''type'', JStr ''tool_result''), (''tool_use_id'', JStr i), (''content'', JStr out)]"

definition initLine :: string where
  \<open>initLine = ''{"type":"system","subtype":"init","session_id":"s-1"}''\<close>

definition initRecord :: json where
  "initRecord =
     JObj [(''type'', JStr ''system''), (''subtype'', JStr ''init''),
           (''session_id'', JStr ''s-1'')]"

definition assistantLine :: string where
  \<open>assistantLine = ''{"type":"assistant","session_id":"s-1","message":{"content":[{"type":"text","text":"hi"}]}}''\<close>

definition assistantRecord :: json where
  "assistantRecord = rawMessage ''assistant'' ''s-1'' [textBlock ''hi'']"

definition toolUseLine :: string where
  \<open>toolUseLine = ''{"type":"assistant","session_id":"s-1","message":{"content":[{"type":"tool_use","id":"t1","name":"Read","input":{"file_path":"a.md"}}]}}''\<close>

definition toolUseRecord :: json where
  "toolUseRecord =
     rawMessage ''assistant'' ''s-1''
       [toolUseBlock ''t1'' ''Read'' (JObj [(''file_path'', JStr ''a.md'')])]"

definition toolResultLine :: string where
  \<open>toolResultLine = ''{"type":"user","session_id":"s-1","message":{"content":[{"type":"tool_result","tool_use_id":"t1","content":"contents"}]}}''\<close>

definition toolResultRecord :: json where
  "toolResultRecord = rawMessage ''user'' ''s-1'' [toolResultBlock ''t1'' ''contents'']"

definition userEchoLine :: string where
  \<open>userEchoLine = ''{"type":"user","session_id":"s-1","message":{"content":[{"type":"text","text":"hello"}]}}''\<close>

definition userEcho :: json where
  "userEcho = rawMessage ''user'' ''s-1'' [textBlock ''hello'']"

definition resultLine :: string where
  \<open>resultLine = ''{"type":"result","subtype":"success","result":"done","session_id":"s-2"}''\<close>

definition resultRecord :: json where
  "resultRecord =
     JObj [(''type'', JStr ''result''), (''subtype'', JStr ''success''),
           (''result'', JStr ''done''), (''session_id'', JStr ''s-2'')]"

text \<open>Lines that are JSON but no well-formed record: a number, a string, the value
  \<open>null\<close>, and an assistant record whose second block is \<open>null\<close>.\<close>

definition numberLine :: string where
  "numberLine = ''123''"

definition stringLine :: string where
  \<open>stringLine = ''"abc"''\<close>

definition nullLine :: string where
  "nullLine = ''null''"

definition nullBlockLine :: string where
  \<open>nullBlockLine = ''{"type":"assistant","session_id":"s-1","message":{"content":[{"type":"tool_use","id":"t9","name":"Read"},null]}}''\<close>

definition nullBlockRecord :: json where
  "nullBlockRecord =
     rawMessage ''assistant'' ''s-1''
       [JObj [(''type'', JStr ''tool_use''), (''id'', JStr ''t9''), (''name'', JStr ''Read'')],
        JNull]"

definition sampleDecoder :: decoder where
  "sampleDecoder text =
     (if text = initLine then Inr initRecord
      else if text = assistantLine then Inr assistantRecord
      else if text = toolUseLine then Inr toolUseRecord
      else if text = toolResultLine then Inr toolResultRecord
      else if text = userEchoLine then Inr userEcho
      else if text = resultLine then Inr resultRecord
      else if text = numberLine then Inr (JNum 123)
      else if text = stringLine then Inr (JStr ''abc'')
      else if text = nullLine then Inr JNull
      else if text = nullBlockLine then Inr nullBlockRecord
      else Inl SyntaxError)"

section \<open>Properties of the input queue\<close>

text \<open>
  C7. The queue is the single optional field \<open>queuedInput\<close>, so it holds at most one
  pending message. \<open>queueInput\<close> answers \<open>true\<close> exactly when a process is active, and
  then stores the text; when no process is active the service is left as it was. An
  accepted offer replaces whatever an earlier offer stored (last write wins). After an
  accepted offer, \<open>getAndClearQueuedInput\<close> returns exactly the offered text, and a
  second call right after it returns \<open>null\<close>.
\<close>

theorem input_queue_single_slot:
  "fst (queueInput t s) = isRunning s
   \<and> (isRunning s \<longrightarrow> queuedInput (snd (queueInput t s)) = Some t)
   \<and> (\<not> isRunning s \<longrightarrow> snd (queueInput t s) = s)
   \<and> (isRunning s \<longrightarrow>
        snd (queueInput t (snd (queueInput t0 s))) = snd (queueInput t s))
   \<and> (isRunning s \<longrightarrow>
        fst (getAndClearQueuedInput (snd (queueInput t s))) = Some t
        \<and> fst (getAndClearQueuedInput (snd (getAndClearQueuedInput (snd (queueInput t s)))))
            = None)"
  by (simp add: queueInput_def getAndClearQueuedInput_def isRunning_def)

theorem input_queue_single_slot_witness:
  "isRunning sampleService
   \<and> fst (queueInput ''second'' (snd (queueInput ''first'' sampleService)))
   \<and> fst (getAndClearQueuedInput
            (snd (queueInput ''second'' (snd (queueInput ''first'' sampleService)))))
       = Some ''second''
   \<and> fst (getAndClearQueuedInput
            (snd (getAndClearQueuedInput (snd (queueInput ''second'' sampleService)))))
       = None
   \<and> \<not> fst (queueInput ''late'' (abort sampleService))"
  using input_queue_single_slot [of "''second''" sampleService "''first''"]
    input_queue_single_slot [of "''late''" "abort sampleService" "''x''"]
  by (simp add: sampleService_def isRunning_def abort_def queueInput_def
      getAndClearQueuedInput_def)

section \<open>Properties of the parser\<close>

subsection \<open>Blank, malformed and ill-shaped lines\<close>

lemma all_dropWhile: "(\<forall>x\<in>set (dropWhile P s). P x) \<longleftrightarrow> (\<forall>c\<in>set s. P c)"
  by (induction s) simp_all

lemma trim_empty_iff: "trim s = [] \<longleftrightarrow> (\<forall>c\<in>set s. isWhiteSpace c)"
  by (simp add: trim_def dropWhile_eq_Nil_conv all_dropWhile)

lemma dropWhile_all: "\<forall>c\<in>set l. P c \<Longrightarrow> dropWhile P (l @ s) = dropWhile P s"
  by (induction l) simp_all

lemma trim_leading: "\<forall>c\<in>set l. isWhiteSpace c \<Longrightarrow> trim (l @ s) = trim s"
  by (simp add: trim_def dropWhile_all)

lemma trim_trailing:
  assumes "\<forall>c\<in>set r. isWhiteSpace c"
  shows "trim (s @ r) = trim s"
proof (cases "\<forall>c\<in>set s. isWhiteSpace c")
  case True
  then have "trim s = []" "trim (s @ r) = []"
    using assms by (auto simp: trim_empty_iff)
  then show ?thesis by simp
next
  case False
  then have "dropWhile isWhiteSpace (s @ r) = dropWhile isWhiteSpace s @ r"
    by (metis dropWhile_append1)
  moreover have "dropWhile isWhiteSpace (rev r @ t) = dropWhile isWhiteSpace t" for t
    using assms by (simp add: dropWhile_all)
  ultimately show ?thesis by (simp add: trim_def)
qed

lemma trim_padded:
  "\<forall>c\<in>set l. isWhiteSpace c \<Longrightarrow> \<forall>c\<in>set r. isWhiteSpace c \<Longrightarrow> trim (l @ s @ r) = trim s"
  by (simp add: trim_leading trim_trailing)

lemma trim_unpadded:
  "s \<noteq> [] \<Longrightarrow> \<not> isWhiteSpace (hd s) \<Longrightarrow> \<not> isWhiteSpace (last s) \<Longrightarrow> trim s = s"
proof -
  assume s: "s \<noteq> []" "\<not> isWhiteSpace (hd s)" "\<not> isWhiteSpace (last s)"
  have "dropWhile isWhiteSpace s = s"
    using s(2) by (cases s) simp_all
  moreover have "dropWhile isWhiteSpace (rev s) = rev s"
    using s(1,3) by (cases "rev s") (simp_all add: hd_rev [symmetric])
  ultimately show ?thesis by (simp add: trim_def)
qed

lemma parseLine_decoded:
  "trim line \<noteq> [] \<Longrightarrow> J (trim line) = Inr raw \<Longrightarrow>
     parseLine J line p =
       (case normalizeMessage raw p of
          (Inl e, p') \<Rightarrow> Inr (None, p')
        | (Inr ms, p') \<Rightarrow> Inr (Some ms, p'))"
  by (simp add: parseLine_def parseLine_try_def)

lemma parseLine_undecoded:
  "J (trim line) = Inl e \<Longrightarrow> parseLine J line p = Inr (None, p)"
  by (simp add: parseLine_def parseLine_try_def Let_def)

lemma parseLine_cases:
  obtains p' where "parseLine J line p = Inr (None, p')"
  | ms p' where "parseLine J line p = Inr (Some ms, p')"
proof (cases "trim line = []")
  case True
  then have "parseLine J line p = Inr (None, p)" by (simp add: parseLine_def)
  then show ?thesis using that(1) by blast
next
  case False
  show ?thesis
  proof (cases "parseLine_try J (trim line) p")
    case (Pair res p')
    show ?thesis
    proof (cases res)
      case (Inl e)
      then have "parseLine J line p = Inr (None, p')"
        using False Pair by (simp add: parseLine_def)
      then show ?thesis using that(1) by blast
    next
      case (Inr ms)
      then have "parseLine J line p = Inr (Some ms, p')"
        using False Pair by (simp add: parseLine_def)
      then show ?thesis using that(2) by blast
    qed
  qed
qed

lemma forOf_throws_iff:
  assumes "\<And>x s. (\<exists>e. body x s = Inl e) \<longleftrightarrow> P x"
  shows "(\<exists>e. fst (forOf body xs s) = Some e) \<longleftrightarrow> (\<exists>x\<in>set xs. P x)"
proof (induction xs arbitrary: s)
  case Nil
  show ?case by simp
next
  case (Cons x xs)
  show ?case
  proof (cases "body x s")
    case (Inl e)
    then have "P x" using assms by blast
    then show ?thesis using Inl by simp
  next
    case (Inr s')
    then have "\<not> P x" using assms [of x s] by simp
    then show ?thesis using Inr Cons.IH [of s'] by simp
  qed
qed

lemma assistantBlock_throws: "(\<exists>e. assistantBlock raw b st = Inl e) \<longleftrightarrow> b = JNull"
  by (cases st) (auto simp: assistantBlock_def Let_def split: option.splits)

lemma userBlock_throws: "(\<exists>e. userBlock raw b st = Inl e) \<longleftrightarrow> b = JNull"
  by (cases st) (auto simp: userBlock_def Let_def split: option.splits)

lemma assistant_loop_throws:
  "(\<exists>e. fst (forOf (assistantBlock raw) bs st) = Some e) \<longleftrightarrow> JNull \<in> set bs"
  using forOf_throws_iff [of "assistantBlock raw" "\<lambda>b. b = JNull" bs st]
  by (simp add: assistantBlock_throws)

lemma user_loop_throws:
  "(\<exists>e. fst (forOf (userBlock raw) bs st) = Some e) \<longleftrightarrow> JNull \<in> set bs"
  using forOf_throws_iff [of "userBlock raw" "\<lambda>b. b = JNull" bs st]
  by (simp add: userBlock_throws)

lemma normalizeMessage_throws_iff:
  "(\<exists>e. fst (normalizeMessage raw p) = Inl e) \<longleftrightarrow> brokenRecord raw"
proof (cases "raw = JNull")
  case True
  then show ?thesis by (simp add: normalizeMessage_def brokenRecord_def)
next
  case notnull: False
  show ?thesis
  proof (cases "member raw ''type'' = Some (JStr ''assistant'')")
    case True
    show ?thesis
    proof (cases "truthyContent raw")
      case None
      then show ?thesis using True notnull
        by (simp add: normalizeMessage_def brokenRecord_def split: prod.splits option.splits)
    next
      case (Some c)
      show ?thesis
      proof (cases "iterate c")
        case (Inl e)
        then show ?thesis using True notnull Some
          by (simp add: normalizeMessage_def brokenRecord_def)
      next
        case (Inr blocks)
        obtain r ms p' where loop: "forOf (assistantBlock raw) blocks ([], p) = (r, ms, p')"
          by (cases "forOf (assistantBlock raw) blocks ([], p)") auto
        have "(\<exists>e. r = Some e) \<longleftrightarrow> JNull \<in> set blocks"
          using assistant_loop_throws [of raw blocks "([], p)"] loop by simp
        then show ?thesis using True notnull Some Inr loop
          by (cases r) (simp_all add: normalizeMessage_def brokenRecord_def)
      qed
    qed
  next
    case notassistant: False
    show ?thesis
    proof (cases "member raw ''type'' = Some (JStr ''user'')")
      case False
      then show ?thesis using notassistant notnull
        by (simp add: normalizeMessage_def brokenRecord_def)
    next
      case True
      show ?thesis
      proof (cases "truthyContent raw")
        case None
        then show ?thesis using True notnull
          by (simp add: normalizeMessage_def brokenRecord_def)
      next
        case (Some c)
        show ?thesis
        proof (cases "iterate c")
          case (Inl e)
          then show ?thesis using True notnull Some
            by (simp add: normalizeMessage_def brokenRecord_def)
        next
          case (Inr blocks)
          obtain r ms p' where loop: "forOf (userBlock raw) blocks ([], p) = (r, ms, p')"
            by (cases "forOf (userBlock raw) blocks ([], p)") auto
          have "(\<exists>e. r = Some e) \<longleftrightarrow> JNull \<in> set blocks"
            using user_loop_throws [of raw blocks "([], p)"] loop by simp
          then show ?thesis using True notnull Some Inr loop
            by (cases r) (simp_all add: normalizeMessage_def brokenRecord_def)
        qed
      qed
    qed
  qed
qed

lemma normalizeMessage_nonempty:
  "fst (normalizeMessage raw p) = Inr ms \<Longrightarrow> ms \<noteq> []"
  by (auto simp: normalizeMessage_def split: if_splits option.splits sum.splits prod.splits)

lemma normalizeMessage_untyped:
  "raw \<noteq> JNull \<Longrightarrow> member raw ''type'' = None \<Longrightarrow>
     normalizeMessage raw p = (Inr [message None (member raw ''session_id'')], p)"
  by (simp add: normalizeMessage_def finishBase_def baseMsg_def)

lemma sample_texts_differ:
  "numberLine \<noteq> initLine" "numberLine \<noteq> assistantLine" "numberLine \<noteq> toolUseLine"
  "numberLine \<noteq> toolResultLine" "numberLine \<noteq> userEchoLine" "numberLine \<noteq> resultLine"
  "stringLine \<noteq> initLine" "stringLine \<noteq> assistantLine" "stringLine \<noteq> toolUseLine"
  "stringLine \<noteq> toolResultLine" "stringLine \<noteq> userEchoLine" "stringLine \<noteq> resultLine"
  "stringLine \<noteq> numberLine"
  "nullBlockLine \<noteq> initLine" "nullBlockLine \<noteq> assistantLine" "nullBlockLine \<noteq> toolUseLine"
  "nullBlockLine \<noteq> toolResultLine" "nullBlockLine \<noteq> userEchoLine"
  "nullBlockLine \<noteq> resultLine" "nullBlockLine \<noteq> numberLine" "nullBlockLine \<noteq> stringLine"
  "nullBlockLine \<noteq> nullLine"
  by (simp_all add: initLine_def assistantLine_def toolUseLine_def toolResultLine_def
      userEchoLine_def resultLine_def numberLine_def stringLine_def nullLine_def
      nullBlockLine_def)

lemma sample_lines_trimmed:
  "trim assistantLine = assistantLine \<and> assistantLine \<noteq> []"
  "trim nullBlockLine = nullBlockLine \<and> nullBlockLine \<noteq> []"
  "trim stringLine = stringLine \<and> stringLine \<noteq> []"
  "trim nullLine = nullLine \<and> nullLine \<noteq> []"
  by (simp_all add: trim_unpadded isWhiteSpace_def assistantLine_def nullBlockLine_def
      stringLine_def nullLine_def)

lemma normalize_assistantRecord:
  "normalizeMessage assistantRecord p
     = (Inr [(message (Some (JStr ''assistant'')) (Some (JStr ''s-1'')))
               \<lparr>msg_content := Some (JStr ''hi''), msg_role := Some (JStr ''assistant'')\<rparr>], p)"
  by (simp add: normalizeMessage_def assistantRecord_def rawMessage_def textBlock_def
      truthyContent_def messageContent_def assistantBlock_def baseMsg_def)

lemma normalize_nullBlockRecord:
  "normalizeMessage nullBlockRecord emptyParser
     = (Inl TypeError,
        \<lparr>activeToolCalls = [JStr ''t9'' \<mapsto> (JStr ''Read'', JObj [])]\<rparr>)"
  by (simp add: normalizeMessage_def nullBlockRecord_def rawMessage_def
      truthyContent_def messageContent_def assistantBlock_def inputOrEmpty_def tableSet_def
      emptyParser_def Let_def)

lemma brokenRecord_samples:
  "brokenRecord nullBlockRecord" "\<not> brokenRecord assistantRecord" "brokenRecord JNull"
  "\<not> brokenRecord (JStr ''abc'')"
  by (simp_all add: brokenRecord_def nullBlockRecord_def assistantRecord_def rawMessage_def
      textBlock_def truthyContent_def messageContent_def)

lemma decode_samples:
  "sampleDecoder assistantLine = Inr assistantRecord"
  "sampleDecoder nullBlockLine = Inr nullBlockRecord"
  "sampleDecoder stringLine = Inr (JStr ''abc'')"
  "sampleDecoder (trim '' {oops '') = Inl SyntaxError"
  using sample_texts_differ
  by (simp_all add: sampleDecoder_def trim_def isWhiteSpace_def)
    (simp_all add: initLine_def assistantLine_def toolUseLine_def toolResultLine_def
      userEchoLine_def resultLine_def numberLine_def stringLine_def nullLine_def
      nullBlockLine_def)

text \<open>
  C6, as the code has it. The line \<open>123\<close> is no structured record, yet it is not
  dropped: \<open>JSON.parse\<close> returns the number, no member read of a number throws, and
  \<open>normalizeMessage\<close> ends by pushing the base message. Parsing yields one event whose
  type and session id are \<open>undefined\<close>.
\<close>

theorem non_record_line_counterexample:
  "parseLine sampleDecoder numberLine emptyParser = Inr (Some [message None None], emptyParser)"
proof -
  have t: "trim numberLine = numberLine" "numberLine \<noteq> []"
    by (simp_all add: trim_unpadded isWhiteSpace_def numberLine_def)
  have d: "sampleDecoder numberLine = Inr (JNum 123)"
    using sample_texts_differ by (simp add: sampleDecoder_def)
  show ?thesis
    using t d by (simp add: parseLine_decoded normalizeMessage_untyped)
qed

text \<open>
  C6, amended. \<open>parseLine\<close> always returns and never throws, whatever the line, the
  decoder and the table. A line that is empty or all white space yields \<open>null\<close>, that
  is no event, and leaves the table as it was; white space before and after a line
  changes nothing, because the line is trimmed before it is decoded. A line on which
  \<open>JSON.parse\<close> throws yields \<open>null\<close> with the table unchanged. A line that decodes to
  a value on which \<open>normalizeMessage\<close> throws (\<open>null\<close>, or an \<open>assistant\<close> or \<open>user\<close>
  record whose content cannot be iterated or holds a \<open>null\<close> block) yields \<open>null\<close> as
  well; the table then keeps the calls registered before the exception. Every other
  line that decodes yields at least one event, also when the decoded value is no
  record: a value without a \<open>type\<close> member (a number, a string, a boolean, an array,
  an object without \<open>type\<close>) yields exactly one bare event with an undefined type. In
  a run, a blank line or a line that does not decode leaves the state of the run
  untouched, so the lines after it are processed as usual.
\<close>

theorem parseLine_never_fails:
  "(\<exists>r p'. parseLine J line p = Inr (r, p'))
   \<and> ((\<forall>c\<in>set line. isWhiteSpace c) \<longrightarrow> parseLine J line p = Inr (None, p))
   \<and> ((\<forall>c\<in>set l. isWhiteSpace c) \<and> (\<forall>c\<in>set r. isWhiteSpace c) \<longrightarrow>
        parseLine J (l @ line @ r) p = parseLine J line p)
   \<and> ((\<exists>e. J (trim line) = Inl e) \<longrightarrow> parseLine J line p = Inr (None, p))
   \<and> (trim line \<noteq> [] \<and> J (trim line) = Inr raw \<and> brokenRecord raw \<longrightarrow>
        parseLine J line p = Inr (None, snd (normalizeMessage raw p)))
   \<and> (trim line \<noteq> [] \<and> J (trim line) = Inr raw \<and> \<not> brokenRecord raw \<longrightarrow>
        (\<exists>ms. ms \<noteq> [] \<and> parseLine J line p = Inr (Some ms, snd (normalizeMessage raw p))))
   \<and> (trim line \<noteq> [] \<and> J (trim line) = Inr raw \<and> raw \<noteq> JNull
        \<and> member raw ''type'' = None \<longrightarrow>
        parseLine J line p = Inr (Some [message None (member raw ''session_id'')], p))
   \<and> ((\<forall>c\<in>set line. isWhiteSpace c) \<or> (\<exists>e. J (trim line) = Inl e) \<longrightarrow>
        handleLine J line x = x)"
proof (intro conjI impI)
  show "\<exists>r p'. parseLine J line p = Inr (r, p')"
    by (cases rule: parseLine_cases [of J line p]) blast+
next
  assume "\<forall>c\<in>set line. isWhiteSpace c"
  then show "parseLine J line p = Inr (None, p)"
    by (simp add: parseLine_def trim_empty_iff)
next
  assume "(\<forall>c\<in>set l. isWhiteSpace c) \<and> (\<forall>c\<in>set r. isWhiteSpace c)"
  then show "parseLine J (l @ line @ r) p = parseLine J line p"
    by (simp add: parseLine_def trim_padded)
next
  assume "\<exists>e. J (trim line) = Inl e"
  then show "parseLine J line p = Inr (None, p)"
    by (auto simp: parseLine_undecoded)
next
  assume h: "trim line \<noteq> [] \<and> J (trim line) = Inr raw \<and> brokenRecord raw"
  then obtain e where "fst (normalizeMessage raw p) = Inl e"
    using normalizeMessage_throws_iff [of raw p] by blast
  then show "parseLine J line p = Inr (None, snd (normalizeMessage raw p))"
    using h by (cases "normalizeMessage raw p") (simp add: parseLine_decoded)
next
  assume h: "trim line \<noteq> [] \<and> J (trim line) = Inr raw \<and> \<not> brokenRecord raw"
  then have "\<nexists>e. fst (normalizeMessage raw p) = Inl e"
    using normalizeMessage_throws_iff [of raw p] by blast
  then obtain ms where ms: "fst (normalizeMessage raw p) = Inr ms"
    by (cases "fst (normalizeMessage raw p)") auto
  then have "ms \<noteq> []" by (rule normalizeMessage_nonempty)
  moreover have "parseLine J line p = Inr (Some ms, snd (normalizeMessage raw p))"
    using h ms by (cases "normalizeMessage raw p") (simp add: parseLine_decoded)
  ultimately show "\<exists>ms. ms \<noteq> []
      \<and> parseLine J line p = Inr (Some ms, snd (normalizeMessage raw p))"
    by blast
next
  assume "trim line \<noteq> [] \<and> J (trim line) = Inr raw \<and> raw \<noteq> JNull
            \<and> member raw ''type'' = None"
  then show "parseLine J line p = Inr (Some [message None (member raw ''session_id'')], p)"
    by (simp add: parseLine_decoded normalizeMessage_untyped)
next
  assume "(\<forall>c\<in>set line. isWhiteSpace c) \<or> (\<exists>e. J (trim line) = Inl e)"
  then show "handleLine J line x = x"
    by (auto simp: handleLine_def parseLine_undecoded trim_empty_iff)
qed

theorem parseLine_never_fails_witness:
  "parseLine sampleDecoder [CHR 0x20, CHR 0x09, CHR 0x0D] emptyParser = Inr (None, emptyParser)
   \<and> sampleDecoder (trim '' {oops '') = Inl SyntaxError
   \<and> parseLine sampleDecoder '' {oops '' emptyParser = Inr (None, emptyParser)
   \<and> parseLine sampleDecoder ('' '' @ assistantLine @ [CHR 0x0D]) emptyParser
       = parseLine sampleDecoder assistantLine emptyParser
   \<and> parseLine sampleDecoder assistantLine emptyParser
       = Inr (Some [(message (Some (JStr ''assistant'')) (Some (JStr ''s-1'')))
                      \<lparr>msg_content := Some (JStr ''hi''),
                       msg_role := Some (JStr ''assistant'')\<rparr>], emptyParser)
   \<and> brokenRecord nullBlockRecord
   \<and> parseLine sampleDecoder nullBlockLine emptyParser
       = Inr (None, \<lparr>activeToolCalls = [JStr ''t9'' \<mapsto> (JStr ''Read'', JObj [])]\<rparr>)
   \<and> parseLine sampleDecoder stringLine emptyParser
       = Inr (Some [message None None], emptyParser)"
proof -
  have ws: "\<forall>c\<in>set [CHR 0x20, CHR 0x09, CHR 0x0D]. isWhiteSpace c"
      "(\<forall>c\<in>set '' ''. isWhiteSpace c) \<and> (\<forall>c\<in>set [CHR 0x0D]. isWhiteSpace c)"
    by (simp_all add: isWhiteSpace_def)
  show ?thesis
    using parseLine_never_fails [of sampleDecoder "[CHR 0x20, CHR 0x09, CHR 0x0D]" emptyParser
        "[]" "[]" JNull]
      parseLine_never_fails [of sampleDecoder "'' {oops ''" emptyParser "[]" "[]" JNull]
      parseLine_never_fails [of sampleDecoder assistantLine emptyParser "'' ''" "[CHR 0x0D]"
        assistantRecord]
      parseLine_never_fails [of sampleDecoder nullBlockLine emptyParser "[]" "[]"
        nullBlockRecord]
      parseLine_never_fails [of sampleDecoder stringLine emptyParser "[]" "[]" "JStr ''abc''"]
      ws sample_lines_trimmed decode_samples brokenRecord_samples
    by (simp add: normalize_assistantRecord normalize_nullBlockRecord
        parseLine_decoded)
qed

subsection \<open>User records\<close>

lemma finishBase_user:
  "member raw ''type'' = Some (JStr ''user'') \<Longrightarrow>
     finishBase raw = message (Some (JStr ''user'')) (member raw ''session_id'')"
  by (simp add: finishBase_def baseMsg_def)

lemma userBlock_no_match:
  "b \<noteq> JNull \<Longrightarrow>
   \<not> (member b ''type'' = Some (JStr ''tool_result'') \<and> truthy_opt (member b ''tool_use_id'')) \<Longrightarrow>
     userBlock raw b st = Inr st"
  by (cases st) (auto simp: userBlock_def split: option.splits)

lemma forOf_userBlock_no_match:
  "\<forall>b\<in>set bs. b \<noteq> JNull
      \<and> \<not> (member b ''type'' = Some (JStr ''tool_result'')
            \<and> truthy_opt (member b ''tool_use_id'')) \<Longrightarrow>
     forOf (userBlock raw) bs st = (None, st)"
  by (induction bs arbitrary: st) (simp_all add: userBlock_no_match)

text \<open>
  C5, as the code has it. A \<open>user\<close> record whose only block is a text block has no
  matching block, and parsing it yields one event, not none: after the loop has
  pushed nothing, control falls through to the end of \<open>normalizeMessage\<close>, which
  pushes the base message.
\<close>

theorem user_record_counterexample:
  "normalizeMessage userEcho emptyParser
     = (Inr [message (Some (JStr ''user'')) (Some (JStr ''s-1''))], emptyParser)
   \<and> parseLine sampleDecoder userEchoLine emptyParser
       = Inr (Some [message (Some (JStr ''user'')) (Some (JStr ''s-1''))], emptyParser)"
proof -
  have t: "trim userEchoLine = userEchoLine" "userEchoLine \<noteq> []"
    by (simp_all add: trim_unpadded userEchoLine_def isWhiteSpace_def)
  have d: "sampleDecoder userEchoLine = Inr userEcho"
    by (simp add: sampleDecoder_def userEchoLine_def initLine_def assistantLine_def
        toolUseLine_def toolResultLine_def)
  have n: "normalizeMessage userEcho emptyParser
             = (Inr [message (Some (JStr ''user'')) (Some (JStr ''s-1''))], emptyParser)"
    by (simp add: normalizeMessage_def userEcho_def rawMessage_def truthyContent_def
        messageContent_def textBlock_def userBlock_def finishBase_def baseMsg_def)
  show ?thesis
    using t d by (simp add: n parseLine_decoded)
qed

text \<open>
  C5, amended. For every \<open>user\<close> record whose content is absent or a list of blocks,
  none of them \<open>null\<close> and none a \<open>tool_result\<close> block with a truthy \<open>tool_use_id\<close>,
  parsing yields exactly one event, the bare event that carries the type \<open>user\<close> and
  the record's session id, and leaves the table of tool calls unchanged.
\<close>

theorem user_record_without_result:
  assumes "member raw ''type'' = Some (JStr ''user'')"
    and "messageContent raw = None \<or> messageContent raw = Some (JArr (contentBlocks raw))"
    and "\<forall>b\<in>set (contentBlocks raw). b \<noteq> JNull
           \<and> \<not> (member b ''type'' = Some (JStr ''tool_result'')
                 \<and> truthy_opt (member b ''tool_use_id''))"
  shows "normalizeMessage raw p
           = (Inr [message (Some (JStr ''user'')) (member raw ''session_id'')], p)"
proof -
  have nn: "raw \<noteq> JNull" using assms(1) by auto
  from assms(2) show ?thesis
  proof
    assume "messageContent raw = None"
    then show ?thesis using assms(1) nn
      by (simp add: normalizeMessage_def truthyContent_def finishBase_user)
  next
    assume c: "messageContent raw = Some (JArr (contentBlocks raw))"
    have "forOf (userBlock raw) (contentBlocks raw) ([], p) = (None, ([], p))"
      using assms(3) by (rule forOf_userBlock_no_match)
    then show ?thesis using assms(1) nn c
      by (simp add: normalizeMessage_def truthyContent_def finishBase_user)
  qed
qed

theorem user_record_without_result_witness:
  "member userEcho ''type'' = Some (JStr ''user'')
   \<and> messageContent userEcho = Some (JArr [textBlock ''hello''])
   \<and> contentBlocks userEcho = [textBlock ''hello'']
   \<and> member (textBlock ''hello'') ''type'' \<noteq> Some (JStr ''tool_result'')
   \<and> normalizeMessage userEcho emptyParser
       = (Inr [message (Some (JStr ''user'')) (Some (JStr ''s-1''))], emptyParser)"
  using user_record_without_result [of userEcho emptyParser]
  by (simp add: userEcho_def rawMessage_def contentBlocks_def messageContent_def textBlock_def)

subsection \<open>Tool calls and their results\<close>

lemma forOf_append:
  "forOf body (xs @ ys) s =
     (case forOf body xs s of (None, s') \<Rightarrow> forOf body ys s' | (Some e, s') \<Rightarrow> (Some e, s'))"
  by (induction xs arbitrary: s) (simp_all split: sum.splits)

lemma assistantBlock_other_id:
  "\<not> (member c ''type'' = Some (JStr ''tool_use'') \<and> member c ''id'' = Some i) \<Longrightarrow>
     assistantBlock raw c st = Inr st' \<Longrightarrow>
     activeToolCalls (snd st') i = activeToolCalls (snd st) i"
  by (cases st)
    (auto simp: assistantBlock_def Let_def tableSet_def split: option.splits if_splits)

lemma forOf_assistantBlock_other_id:
  "\<forall>c\<in>set bs. \<not> (member c ''type'' = Some (JStr ''tool_use'') \<and> member c ''id'' = Some i) \<Longrightarrow>
     activeToolCalls (snd (snd (forOf (assistantBlock raw) bs st))) i = activeToolCalls (snd st) i"
proof (induction bs arbitrary: st)
  case Nil
  show ?case by simp
next
  case (Cons c bs)
  show ?case
  proof (cases "assistantBlock raw c st")
    case (Inl e)
    then show ?thesis by simp
  next
    case (Inr st')
    then have "activeToolCalls (snd st') i = activeToolCalls (snd st) i"
      using Cons.prems assistantBlock_other_id [of c i raw st st'] by simp
    then show ?thesis using Inr Cons by simp
  qed
qed

lemma assistantBlock_registers:
  assumes "member b ''type'' = Some (JStr ''tool_use'')" "member b ''id'' = Some i" "truthy i"
    "byValue i" "member b ''name'' = Some n" "truthy n"
  shows "assistantBlock raw b (ms, p)
           = Inr (ms @ [toolCallEvent raw b],
                  p\<lparr>activeToolCalls :=
                       (activeToolCalls p)(i \<mapsto> (n, inputOrEmpty (member b ''input'')))\<rparr>)"
proof -
  have "b \<noteq> JNull" using assms(1) by auto
  then show ?thesis
    using assms by (simp add: assistantBlock_def Let_def toolCallEvent_def tableSet_def)
qed

lemma assistantBlock_keeps:
  "assistantBlock raw c st = Inr st' \<Longrightarrow> set (fst st) \<subseteq> set (fst st')"
  by (cases st) (auto simp: assistantBlock_def Let_def split: if_splits)

lemma forOf_assistantBlock_keeps:
  "set (fst st) \<subseteq> set (fst (snd (forOf (assistantBlock raw) bs st)))"
proof (induction bs arbitrary: st)
  case Nil
  show ?case by simp
next
  case (Cons c bs)
  show ?case
  proof (cases "assistantBlock raw c st")
    case (Inl e)
    then show ?thesis by simp
  next
    case (Inr st')
    have "set (fst st) \<subseteq> set (fst st')"
      using Inr by (rule assistantBlock_keeps)
    also have "\<dots> \<subseteq> set (fst (snd (forOf (assistantBlock raw) bs st')))"
      by (rule Cons.IH)
    finally show ?thesis using Inr by simp
  qed
qed

lemma forOf_assistantBlock_registers:
  assumes b: "b \<in> set bs" "member b ''type'' = Some (JStr ''tool_use'')"
      "member b ''id'' = Some i" "truthy i" "byValue i" "member b ''name'' = Some n" "truthy n"
    and uniq: "\<forall>c\<in>set bs. member c ''type'' = Some (JStr ''tool_use'')
                 \<and> member c ''id'' = Some i \<longrightarrow> c = b"
    and wf: "JNull \<notin> set bs"
  shows "fst (forOf (assistantBlock raw) bs st) = None"
    and "activeToolCalls (snd (snd (forOf (assistantBlock raw) bs st))) i
           = Some (n, inputOrEmpty (member b ''input''))"
    and "toolCallEvent raw b \<in> set (fst (snd (forOf (assistantBlock raw) bs st)))"
proof -
  show nothrow: "fst (forOf (assistantBlock raw) bs st) = None"
    using assistant_loop_throws [of raw bs st] wf
    by (cases "fst (forOf (assistantBlock raw) bs st)") auto
  from b(1) obtain pre post where split: "bs = pre @ b # post" "b \<notin> set post"
    by (meson split_list_last)
  have "JNull \<notin> set pre" using wf split by simp
  then have "fst (forOf (assistantBlock raw) pre st) = None"
    using assistant_loop_throws [of raw pre st]
    by (cases "fst (forOf (assistantBlock raw) pre st)") auto
  then obtain ms p where pre: "forOf (assistantBlock raw) pre st = (None, ms, p)"
    by (cases "forOf (assistantBlock raw) pre st") auto
  let ?mid = "(ms @ [toolCallEvent raw b],
               p\<lparr>activeToolCalls :=
                    (activeToolCalls p)(i \<mapsto> (n, inputOrEmpty (member b ''input'')))\<rparr>)"
  have fold_eq: "forOf (assistantBlock raw) bs st = forOf (assistantBlock raw) post ?mid"
    using pre assistantBlock_registers [OF b(2-7), of raw ms p]
    by (simp add: split(1) forOf_append)
  have "\<forall>c\<in>set post. \<not> (member c ''type'' = Some (JStr ''tool_use'')
                           \<and> member c ''id'' = Some i)"
    using uniq split by auto
  then have "activeToolCalls (snd (snd (forOf (assistantBlock raw) post ?mid))) i
               = activeToolCalls (snd ?mid) i"
    by (rule forOf_assistantBlock_other_id)
  then show "activeToolCalls (snd (snd (forOf (assistantBlock raw) bs st))) i
               = Some (n, inputOrEmpty (member b ''input''))"
    using fold_eq by simp
  have "toolCallEvent raw b \<in> set (fst ?mid)" by simp
  then show "toolCallEvent raw b \<in> set (fst (snd (forOf (assistantBlock raw) bs st)))"
    using forOf_assistantBlock_keeps [of ?mid raw post] fold_eq by auto
qed

lemma assistant_record_registers:
  assumes a: "member a ''type'' = Some (JStr ''assistant'')"
      "messageContent a = Some (JArr blocks)"
    and b: "b \<in> set blocks" "member b ''type'' = Some (JStr ''tool_use'')"
      "member b ''id'' = Some i" "truthy i" "byValue i" "member b ''name'' = Some n" "truthy n"
    and uniq: "\<forall>c\<in>set blocks. member c ''type'' = Some (JStr ''tool_use'')
                 \<and> member c ''id'' = Some i \<longrightarrow> c = b"
    and wf: "JNull \<notin> set blocks"
  shows "\<exists>ms. fst (normalizeMessage a p) = Inr ms \<and> toolCallEvent a b \<in> set ms"
    and "activeToolCalls (snd (normalizeMessage a p)) i
           = Some (n, inputOrEmpty (member b ''input''))"
proof -
  obtain r ms p' where loop: "forOf (assistantBlock a) blocks ([], p) = (r, ms, p')"
    by (cases "forOf (assistantBlock a) blocks ([], p)") auto
  have r: "r = None"
    using forOf_assistantBlock_registers(1) [OF b uniq wf, of a "([], p)"] loop by simp
  have ev: "toolCallEvent a b \<in> set ms"
    using forOf_assistantBlock_registers(3) [OF b uniq wf, of a "([], p)"] loop by simp
  then have ne: "ms \<noteq> []" by auto
  have tab: "activeToolCalls p' i = Some (n, inputOrEmpty (member b ''input''))"
    using forOf_assistantBlock_registers(2) [OF b uniq wf, of a "([], p)"] loop by simp
  have nn: "a \<noteq> JNull" using a(1) by auto
  have norm: "normalizeMessage a p = (Inr ms, p')"
    using a nn loop r ne by (simp add: normalizeMessage_def truthyContent_def)
  show "\<exists>ms. fst (normalizeMessage a p) = Inr ms \<and> toolCallEvent a b \<in> set ms"
    using norm ev by simp
  show "activeToolCalls (snd (normalizeMessage a p)) i
           = Some (n, inputOrEmpty (member b ''input''))"
    using norm tab by simp
qed

lemma userBlock_step:
  "c \<noteq> JNull \<Longrightarrow>
   userBlock u c (ms, q) =
     (if member c ''type'' = Some (JStr ''tool_result'') \<and> truthy_opt (member c ''tool_use_id'')
      then
        Inr (ms @ [(message (Some (JStr ''tool_result'')) (member u ''session_id''))
                     \<lparr>msg_id := member c ''tool_use_id'',
                      msg_name := map_option fst
                         (tableGet (activeToolCalls q) (the (member c ''tool_use_id''))),
                      msg_input := map_option snd
                         (tableGet (activeToolCalls q) (the (member c ''tool_use_id''))),
                      msg_output := member c ''content'', msg_is_error := member u ''is_error''\<rparr>],
             q\<lparr>activeToolCalls :=
                  tableDelete (the (member c ''tool_use_id'')) (activeToolCalls q)\<rparr>)
      else Inr (ms, q))"
  by (auto simp: userBlock_def Let_def split: option.splits)

lemma forOf_userBlock_consumed:
  "JNull \<notin> set bs \<Longrightarrow> byValue i \<Longrightarrow> activeToolCalls q i = None \<Longrightarrow>
     fst (forOf (userBlock u) bs (ms, q)) = None
     \<and> activeToolCalls (snd (snd (forOf (userBlock u) bs (ms, q)))) i = None
     \<and> length (filter (isResultFor i n inp) (fst (snd (forOf (userBlock u) bs (ms, q)))))
         = length (filter (isResultFor i n inp) ms)"
proof (induction bs arbitrary: ms q)
  case Nil
  then show ?case by simp
next
  case (Cons c bs)
  then have c: "c \<noteq> JNull" and bs: "JNull \<notin> set bs" by auto
  show ?case
  proof (cases "member c ''type'' = Some (JStr ''tool_result'')
                  \<and> truthy_opt (member c ''tool_use_id'')")
    case False
    then have "userBlock u c (ms, q) = Inr (ms, q)" using c by (simp add: userBlock_no_match)
    then show ?thesis using Cons.IH [OF bs Cons.prems(2,3)] by simp
  next
    case True
    then obtain j where j: "member c ''tool_use_id'' = Some j"
      by (cases "member c ''tool_use_id''") auto
    let ?ev = "(message (Some (JStr ''tool_result'')) (member u ''session_id''))
                 \<lparr>msg_id := Some j,
                  msg_name := map_option fst (tableGet (activeToolCalls q) j),
                  msg_input := map_option snd (tableGet (activeToolCalls q) j),
                  msg_output := member c ''content'', msg_is_error := member u ''is_error''\<rparr>"
    let ?q = "q\<lparr>activeToolCalls := tableDelete j (activeToolCalls q)\<rparr>"
    have step: "userBlock u c (ms, q) = Inr (ms @ [?ev], ?q)"
      using True j c by (simp add: userBlock_step)
    have "\<not> isResultFor i n inp ?ev"
      using Cons.prems(2,3) by (auto simp: isResultFor_def message_def tableGet_def)
    moreover have "activeToolCalls ?q i = None"
      using Cons.prems(3) by (simp add: tableDelete_def)
    ultimately show ?thesis
      using Cons.IH [OF bs Cons.prems(2), of ?q "ms @ [?ev]"] step by simp
  qed
qed

lemma forOf_userBlock_result:
  assumes "JNull \<notin> set bs" "activeToolCalls q i = Some (n, inp)" "truthy i" "byValue i"
    "\<exists>r\<in>set bs. references i r"
  shows "fst (forOf (userBlock u) bs (ms, q)) = None
     \<and> activeToolCalls (snd (snd (forOf (userBlock u) bs (ms, q)))) i = None
     \<and> length (filter (isResultFor i n inp) (fst (snd (forOf (userBlock u) bs (ms, q)))))
         = Suc (length (filter (isResultFor i n inp) ms))"
  using assms
proof (induction bs arbitrary: ms q)
  case Nil
  then show ?case by simp
next
  case (Cons c bs)
  then have c: "c \<noteq> JNull" and bs: "JNull \<notin> set bs" by auto
  show ?case
  proof (cases "references i c")
    case True
    let ?q = "q\<lparr>activeToolCalls := (activeToolCalls q)(i := None)\<rparr>"
    let ?ev = "(message (Some (JStr ''tool_result'')) (member u ''session_id''))
                 \<lparr>msg_id := Some i, msg_name := Some n, msg_input := Some inp,
                  msg_output := member c ''content'', msg_is_error := member u ''is_error''\<rparr>"
    have step: "userBlock u c (ms, q) = Inr (ms @ [?ev], ?q)"
      using True Cons.prems(2,3,4) c
      by (simp add: userBlock_step references_def tableGet_def tableDelete_def)
    have ev: "isResultFor i n inp ?ev"
      by (simp add: isResultFor_def message_def)
    have "activeToolCalls ?q i = None" by simp
    from forOf_userBlock_consumed [OF bs Cons.prems(4) this, of u "ms @ [?ev]" n inp]
    show ?thesis using step ev by simp
  next
    case False
    then have rest: "\<exists>r\<in>set bs. references i r" using Cons.prems(5) by auto
    show ?thesis
    proof (cases "member c ''type'' = Some (JStr ''tool_result'')
                    \<and> truthy_opt (member c ''tool_use_id'')")
      case False
      then have "userBlock u c (ms, q) = Inr (ms, q)" using c by (simp add: userBlock_no_match)
      then show ?thesis using Cons.IH [OF bs Cons.prems(2,3,4) rest] by simp
    next
      case True
      then obtain j where j: "member c ''tool_use_id'' = Some j"
        by (cases "member c ''tool_use_id''") auto
      with \<open>\<not> references i c\<close> True have ji: "j \<noteq> i" by (auto simp: references_def)
      let ?ev = "(message (Some (JStr ''tool_result'')) (member u ''session_id''))
                 \<lparr>msg_id := Some j,
                  msg_name := map_option fst (tableGet (activeToolCalls q) j),
                  msg_input := map_option snd (tableGet (activeToolCalls q) j),
                  msg_output := member c ''content'', msg_is_error := member u ''is_error''\<rparr>"
      let ?q = "q\<lparr>activeToolCalls := tableDelete j (activeToolCalls q)\<rparr>"
      have step: "userBlock u c (ms, q) = Inr (ms @ [?ev], ?q)"
        using True j c by (simp add: userBlock_step)
      have "\<not> isResultFor i n inp ?ev"
        using ji by (simp add: isResultFor_def message_def)
      moreover have "activeToolCalls ?q i = Some (n, inp)"
        using ji Cons.prems(2) by (simp add: tableDelete_def)
      ultimately show ?thesis
        using Cons.IH [OF bs _ Cons.prems(3,4) rest, of ?q "ms @ [?ev]"] step by simp
    qed
  qed
qed

lemma user_record_result:
  assumes u: "member u ''type'' = Some (JStr ''user'')" "messageContent u = Some (JArr results)"
    and r: "r \<in> set results" "references i r" "truthy i" "byValue i"
    and wf: "JNull \<notin> set results"
    and q: "activeToolCalls q i = Some (n, inp)"
  shows "\<exists>ms. fst (normalizeMessage u q) = Inr ms
              \<and> length (filter (isResultFor i n inp) ms) = 1"
    and "activeToolCalls (snd (normalizeMessage u q)) i = None"
proof -
  obtain e ms q' where loop: "forOf (userBlock u) results ([], q) = (e, ms, q')"
    by (cases "forOf (userBlock u) results ([], q)") auto
  have ex: "\<exists>r\<in>set results. references i r" using r by blast
  have res: "e = None" "activeToolCalls q' i = None"
      "length (filter (isResultFor i n inp) ms) = 1"
    using forOf_userBlock_result [OF wf q r(3,4) ex, of u "[]"] loop by simp_all
  then have ne: "ms \<noteq> []" by auto
  have nn: "u \<noteq> JNull" using u(1) by auto
  have norm: "normalizeMessage u q = (Inr ms, q')"
    using u nn loop res(1) ne by (simp add: normalizeMessage_def truthyContent_def)
  show "\<exists>ms. fst (normalizeMessage u q) = Inr ms
              \<and> length (filter (isResultFor i n inp) ms) = 1"
    using norm res by simp
  show "activeToolCalls (snd (normalizeMessage u q)) i = None"
    using norm res by simp
qed

text \<open>
  C2. Take an \<open>assistant\<close> record whose content is a list of blocks, none of them
  \<open>null\<close>, with a \<open>tool_use\<close> block that has a truthy id \<open>i\<close> compared by value (a
  string, as the interface declares it, or a number or \<open>true\<close>) and a truthy name
  \<open>n\<close>, the id being used by no other \<open>tool_use\<close> block of the record (a well-formed
  record does not reuse a call id). Parsing it stores \<open>(n, block.input || {})\<close> under
  \<open>i\<close> in the table and emits the tool-call event of the block. If a \<open>user\<close> record
  whose content is a list of blocks, none of them \<open>null\<close>, with a \<open>tool_result\<close> block
  that refers to \<open>i\<close> is parsed next, exactly one of the events it yields is a
  \<open>tool_result\<close> event for \<open>i\<close> carrying the stored name and input, and afterwards the
  table has no entry for \<open>i\<close>. Lemma \<open>user_record_result\<close> gives the second half for
  any table that holds the entry.
\<close>

theorem tool_call_correlation:
  assumes a: "member a ''type'' = Some (JStr ''assistant'')"
      "messageContent a = Some (JArr blocks)"
    and b: "b \<in> set blocks" "member b ''type'' = Some (JStr ''tool_use'')"
      "member b ''id'' = Some i" "truthy i" "byValue i" "member b ''name'' = Some n" "truthy n"
    and uniq: "\<forall>c\<in>set blocks. member c ''type'' = Some (JStr ''tool_use'')
                 \<and> member c ''id'' = Some i \<longrightarrow> c = b"
    and wfa: "JNull \<notin> set blocks"
    and u: "member u ''type'' = Some (JStr ''user'')" "messageContent u = Some (JArr results)"
    and r: "r \<in> set results" "references i r"
    and wfu: "JNull \<notin> set results"
  shows "activeToolCalls (snd (normalizeMessage a p)) i
           = Some (n, inputOrEmpty (member b ''input''))
    \<and> (\<exists>ms. fst (normalizeMessage a p) = Inr ms \<and> toolCallEvent a b \<in> set ms)
    \<and> (\<exists>ms. fst (normalizeMessage u (snd (normalizeMessage a p))) = Inr ms
            \<and> length (filter (isResultFor i n (inputOrEmpty (member b ''input''))) ms) = 1)
    \<and> activeToolCalls (snd (normalizeMessage u (snd (normalizeMessage a p)))) i = None"
proof -
  have reg: "activeToolCalls (snd (normalizeMessage a p)) i
               = Some (n, inputOrEmpty (member b ''input''))"
    by (rule assistant_record_registers(2) [OF a b uniq wfa])
  moreover have "\<exists>ms. fst (normalizeMessage a p) = Inr ms \<and> toolCallEvent a b \<in> set ms"
    by (rule assistant_record_registers(1) [OF a b uniq wfa])
  moreover note user_record_result [OF u r b(4,5) wfu reg]
  ultimately show ?thesis by simp
qed

theorem tool_call_correlation_witness:
  "member toolUseRecord ''type'' = Some (JStr ''assistant'')
   \<and> messageContent toolUseRecord
       = Some (JArr [toolUseBlock ''t1'' ''Read'' (JObj [(''file_path'', JStr ''a.md'')])])
   \<and> member toolResultRecord ''type'' = Some (JStr ''user'')
   \<and> messageContent toolResultRecord = Some (JArr [toolResultBlock ''t1'' ''contents''])
   \<and> references (JStr ''t1'') (toolResultBlock ''t1'' ''contents'')
   \<and> activeToolCalls (snd (normalizeMessage toolUseRecord emptyParser)) (JStr ''t1'')
       = Some (JStr ''Read'', JObj [(''file_path'', JStr ''a.md'')])
   \<and> fst (normalizeMessage toolResultRecord (snd (normalizeMessage toolUseRecord emptyParser)))
       = Inr [(message (Some (JStr ''tool_result'')) (Some (JStr ''s-1'')))
                \<lparr>msg_id := Some (JStr ''t1''), msg_name := Some (JStr ''Read''),
                 msg_input := Some (JObj [(''file_path'', JStr ''a.md'')]),
                 msg_output := Some (JStr ''contents'')\<rparr>]
   \<and> activeToolCalls
         (snd (normalizeMessage toolResultRecord (snd (normalizeMessage toolUseRecord emptyParser))))
         (JStr ''t1'') = None"
  using tool_call_correlation [of toolUseRecord
      "[toolUseBlock ''t1'' ''Read'' (JObj [(''file_path'', JStr ''a.md'')])]"
      "toolUseBlock ''t1'' ''Read'' (JObj [(''file_path'', JStr ''a.md'')])" "JStr ''t1''"
      "JStr ''Read''" toolResultRecord "[toolResultBlock ''t1'' ''contents'']"
      "toolResultBlock ''t1'' ''contents''" emptyParser]
  by (simp add: toolUseRecord_def toolResultRecord_def rawMessage_def
      messageContent_def truthyContent_def toolUseBlock_def toolResultBlock_def references_def
      emptyParser_def normalizeMessage_def assistantBlock_def userBlock_def inputOrEmpty_def
      Let_def message_def toolCallEvent_def isResultFor_def tableSet_def tableGet_def
      tableDelete_def)

section \<open>Properties of a run\<close>

subsection \<open>What the callbacks change\<close>

lemma drive_streaming:
  "list_all streaming pre \<Longrightarrow>
     fst (drive J pre x) = None \<and> drive J (pre @ es) x = drive J es (snd (drive J pre x))"
proof (induction pre arbitrary: x)
  case Nil
  show ?case by simp
next
  case (Cons e pre)
  then show ?case by (cases e) simp_all
qed

lemma lastSessionId_snoc:
  "lastSessionId (ms @ [m]) =
     (if truthy_opt (msg_session_id m) then msg_session_id m else lastSessionId ms)"
  by (simp add: lastSessionId_def)

lemma lastResultText_snoc:
  "lastResultText (ms @ [m]) t =
     (if isFinalResult m then content_string (msg_content m) else lastResultText ms t)"
  by (simp add: lastResultText_def)

lemma handleFinal_fields:
  "messages (handleFinal m x) = messages x @ [m]"
  "finalContent (handleFinal m x) = (if isFinalResult m then content_string (msg_content m) else finalContent x)"
  "sessionId (handleFinal m x) = sessionId x"
  "stderrData (handleFinal m x) = stderrData x"
  by (simp_all add: handleFinal_def Let_def isFinalResult_def)

lemma fold_handleFinal_fields:
  "messages (fold handleFinal ms x) = messages x @ ms
   \<and> finalContent (fold handleFinal ms x) = lastResultText ms (finalContent x)
   \<and> sessionId (fold handleFinal ms x) = sessionId x
   \<and> stderrData (fold handleFinal ms x) = stderrData x"
proof (induction ms arbitrary: x rule: rev_induct)
  case Nil
  show ?case by (simp add: lastResultText_def)
next
  case (snoc m ms)
  then show ?case by (simp add: handleFinal_fields lastResultText_snoc)
qed

lemma flushBuffer_fields:
  "messages (flushBuffer J x) = messages x @ bufferedEvents J x
   \<and> finalContent (flushBuffer J x) = lastResultText (bufferedEvents J x) (finalContent x)
   \<and> sessionId (flushBuffer J x) = sessionId x
   \<and> stderrData (flushBuffer J x) = stderrData x"
proof (cases "trim (buffer x) = []")
  case True
  then show ?thesis by (simp add: flushBuffer_def bufferedEvents_def lastResultText_def)
next
  case False
  show ?thesis
  proof (cases rule: parseLine_cases [of J "buffer x" "parser x"])
    case (1 p')
    then show ?thesis using False
      by (simp add: flushBuffer_def bufferedEvents_def lastResultText_def)
  next
    case (2 ms p')
    then show ?thesis using False
      by (simp add: flushBuffer_def bufferedEvents_def fold_handleFinal_fields)
  qed
qed

lemma handleParsed_fields:
  "messages (handleParsed m x) = messages x @ [m]"
  "sessionId (handleParsed m x) = (if truthy_opt (msg_session_id m) then msg_session_id m else sessionId x)"
  "stderrData (handleParsed m x) = stderrData x"
  by (simp_all add: handleParsed_def Let_def)

lemma fold_handleParsed_tracked:
  "tracked x \<Longrightarrow> tracked (fold handleParsed ms x)"
  by (induction ms arbitrary: x) (simp_all add: tracked_def handleParsed_fields lastSessionId_snoc)

lemma fold_handleParsed_stderr:
  "stderrData (fold handleParsed ms x) = stderrData x"
  by (induction ms arbitrary: x) (simp_all add: handleParsed_fields)

lemma handleLine_tracked: "tracked x \<Longrightarrow> tracked (handleLine J line x)"
proof (cases rule: parseLine_cases [of J line "parser x"])
  case (1 p')
  assume "tracked x"
  with 1 show ?thesis by (simp add: handleLine_def tracked_def)
next
  case (2 ms p')
  assume "tracked x"
  then have "tracked (x\<lparr>parser := p'\<rparr>)" by (simp add: tracked_def)
  then have "tracked (fold handleParsed ms (x\<lparr>parser := p'\<rparr>))"
    by (rule fold_handleParsed_tracked)
  with 2 \<open>tracked x\<close> show ?thesis by (simp add: handleLine_def)
qed

lemma handleLine_stderr: "stderrData (handleLine J line x) = stderrData x"
  by (cases rule: parseLine_cases [of J line "parser x"])
    (simp_all add: handleLine_def fold_handleParsed_stderr)

lemma fold_handleLine_tracked: "tracked x \<Longrightarrow> tracked (fold (handleLine J) ls x)"
  by (induction ls arbitrary: x) (simp_all add: handleLine_tracked)

lemma fold_handleLine_stderr: "stderrData (fold (handleLine J) ls x) = stderrData x"
  by (induction ls arbitrary: x) (simp_all add: handleLine_stderr)

lemma onStdoutData_tracked:
  assumes "tracked x"
  shows "tracked (onStdoutData J d x)"
proof -
  have "tracked (x\<lparr>buffer := last (split_nl (buffer x @ d))\<rparr>)"
    using assms by (simp add: tracked_def)
  then show ?thesis
    by (simp add: onStdoutData_def Let_def fold_handleLine_tracked)
qed

lemma onStdoutData_stderr: "stderrData (onStdoutData J d x) = stderrData x"
  by (simp add: onStdoutData_def Let_def fold_handleLine_stderr)

lemma other_handlers_tracked:
  "tracked x \<Longrightarrow> tracked (onStderrData d x)"
  "tracked x \<Longrightarrow> tracked (onTimeout x)"
  "tracked x \<Longrightarrow> tracked (abort x)"
  by (simp_all add: tracked_def onStderrData_def onTimeout_def abort_def split: option.splits)

lemma other_handlers_stderr:
  "stderrData (onStderrData d x) = stderrData x @ d"
  "stderrData (onTimeout x) = stderrData x"
  "stderrData (abort x) = stderrData x"
  by (simp_all add: onStderrData_def onTimeout_def abort_def split: option.splits)

lemma drive_tracked:
  "list_all streaming pre \<Longrightarrow> tracked x \<Longrightarrow> tracked (snd (drive J pre x))"
proof (induction pre arbitrary: x)
  case Nil
  then show ?case by simp
next
  case (Cons e pre)
  then show ?case
    by (cases e) (simp_all add: onStdoutData_tracked other_handlers_tracked)
qed

lemma drive_stderr:
  "list_all streaming pre \<Longrightarrow> stderrData (snd (drive J pre x)) = stderrData x @ stderrText pre"
proof (induction pre arbitrary: x)
  case Nil
  then show ?case by simp
next
  case (Cons e pre)
  then show ?case
    by (cases e) (simp_all add: onStdoutData_stderr other_handlers_stderr)
qed

lemma spawn_tracked: "tracked (spawn proc s)"
  by (simp add: tracked_def spawn_def lastSessionId_def)

lemma execute_close:
  assumes "list_all streaming pre"
  shows "execute J proc (pre @ Closed code # rest) s
           = (Some (Resolved (resolveOutcome code
                (flushBuffer J ((snd (execute J proc pre s))
                   \<lparr>timeoutArmed := False, activeProcess := None\<rparr>)))),
              flushBuffer J ((snd (execute J proc pre s))
                   \<lparr>timeoutArmed := False, activeProcess := None\<rparr>))"
  using drive_streaming [OF assms, of J "spawn proc s" "Closed code # rest"]
  by (simp add: execute_def onClose_def Let_def)

lemma bufferedEvents_closing:
  "bufferedEvents J (x\<lparr>timeoutArmed := t, activeProcess := a\<rparr>) = bufferedEvents J x"
  by (simp add: bufferedEvents_def)

lemma handleParsed_process:
  "activeProcess (handleParsed m x) = activeProcess x"
  "timeoutArmed (handleParsed m x) = timeoutArmed x"
  "sigterms (handleParsed m x) = sigterms x"
  by (simp_all add: handleParsed_def Let_def)

lemma fold_handleParsed_process:
  "activeProcess (fold handleParsed ms x) = activeProcess x
   \<and> timeoutArmed (fold handleParsed ms x) = timeoutArmed x
   \<and> sigterms (fold handleParsed ms x) = sigterms x"
  by (induction ms arbitrary: x) (simp_all add: handleParsed_process)

lemma handleLine_process:
  "activeProcess (handleLine J line x) = activeProcess x
   \<and> timeoutArmed (handleLine J line x) = timeoutArmed x
   \<and> sigterms (handleLine J line x) = sigterms x"
  by (cases rule: parseLine_cases [of J line "parser x"])
    (simp_all add: handleLine_def fold_handleParsed_process)

lemma fold_handleLine_process:
  "activeProcess (fold (handleLine J) ls x) = activeProcess x
   \<and> timeoutArmed (fold (handleLine J) ls x) = timeoutArmed x
   \<and> sigterms (fold (handleLine J) ls x) = sigterms x"
  by (induction ls arbitrary: x) (simp_all add: handleLine_process)

lemma onStdoutData_process:
  "activeProcess (onStdoutData J d x) = activeProcess x
   \<and> timeoutArmed (onStdoutData J d x) = timeoutArmed x
   \<and> sigterms (onStdoutData J d x) = sigterms x"
  by (simp add: onStdoutData_def Let_def fold_handleLine_process)

lemma streaming_step_killable:
  "killable proc x \<Longrightarrow> killable proc (onStdoutData J d x)"
  "killable proc x \<Longrightarrow> killable proc (onStderrData d x)"
  "killable proc x \<Longrightarrow> signalled proc (onTimeout x)"
  "killable proc x \<Longrightarrow> signalled proc (abort x)"
  by (auto simp: killable_def signalled_def onStdoutData_process onStderrData_def
      onTimeout_def abort_def split: option.splits)

lemma streaming_step_signalled:
  "signalled proc x \<Longrightarrow> signalled proc (onStdoutData J d x)"
  "signalled proc x \<Longrightarrow> signalled proc (onStderrData d x)"
  "signalled proc x \<Longrightarrow> signalled proc (onTimeout x)"
  "signalled proc x \<Longrightarrow> signalled proc (abort x)"
  by (auto simp: signalled_def onStdoutData_process onStderrData_def
      onTimeout_def abort_def split: option.splits)

lemma drive_signalled:
  "list_all streaming pre \<Longrightarrow> signalled proc x \<Longrightarrow> signalled proc (snd (drive J pre x))"
proof (induction pre arbitrary: x)
  case Nil
  then show ?case by simp
next
  case (Cons e pre)
  then show ?case by (cases e) (simp_all add: streaming_step_signalled)
qed

lemma drive_killed:
  "list_all streaming pre \<Longrightarrow> killable proc x \<Longrightarrow>
     TimeoutExpired \<in> set pre \<or> AbortCalled \<in> set pre \<Longrightarrow>
     signalled proc (snd (drive J pre x))"
proof (induction pre arbitrary: x)
  case Nil
  then show ?case by simp
next
  case (Cons e pre)
  show ?case
  proof (cases e)
    case (StdoutData d)
    then show ?thesis using Cons by (simp add: streaming_step_killable)
  next
    case (StderrData d)
    then show ?thesis using Cons by (simp add: streaming_step_killable)
  next
    case TimeoutExpired
    then show ?thesis
      using Cons.prems drive_signalled [of pre proc "onTimeout x" J]
      by (simp add: streaming_step_killable)
  next
    case AbortCalled
    then show ?thesis
      using Cons.prems drive_signalled [of pre proc "abort x" J]
      by (simp add: streaming_step_killable)
  next
    case (Closed code)
    then show ?thesis using Cons.prems by simp
  next
    case Failed
    then show ?thesis using Cons.prems by simp
  qed
qed

lemma spawn_killable: "killable proc (spawn proc s)"
  by (simp add: killable_def spawn_def)

lemma fold_handleFinal_sigterms: "sigterms (fold handleFinal ms x) = sigterms x"
  by (induction ms arbitrary: x) (simp_all add: handleFinal_def Let_def)

lemma flushBuffer_sigterms: "sigterms (flushBuffer J x) = sigterms x"
  by (cases rule: parseLine_cases [of J "buffer x" "parser x"])
    (simp_all add: flushBuffer_def fold_handleFinal_sigterms)

subsection \<open>Evaluating the sample runs\<close>

lemma split_nl_nonempty: "split_nl s \<noteq> []"
  by (induction s) (auto split: list.splits)

lemma split_nl_no_newline: "CHR 0x0A \<notin> set l \<Longrightarrow> split_nl l = [l]"
  by (induction l) auto

lemma split_nl_line: "CHR 0x0A \<notin> set l \<Longrightarrow> split_nl (l @ CHR 0x0A # rest) = l # split_nl rest"
  by (induction l) auto

lemma sample_lines_distinct:
  "initLine \<noteq> assistantLine" "initLine \<noteq> resultLine" "assistantLine \<noteq> resultLine"
  "toolUseLine \<noteq> resultLine" "toolResultLine \<noteq> resultLine" "userEchoLine \<noteq> resultLine"
  "assistantLine \<noteq> initLine" "resultLine \<noteq> initLine" "resultLine \<noteq> assistantLine"
  by (simp_all add: initLine_def assistantLine_def resultLine_def toolUseLine_def
      toolResultLine_def userEchoLine_def)

lemma sample_lines_plain:
  "CHR 0x0A \<notin> set initLine \<and> trim initLine = initLine \<and> initLine \<noteq> []"
  "CHR 0x0A \<notin> set assistantLine \<and> trim assistantLine = assistantLine \<and> assistantLine \<noteq> []"
  "CHR 0x0A \<notin> set resultLine \<and> trim resultLine = resultLine \<and> resultLine \<noteq> []"
  by (simp_all add: trim_unpadded isWhiteSpace_def initLine_def assistantLine_def resultLine_def)

lemma parse_initLine:
  "parseLine sampleDecoder initLine p
     = Inr (Some [(message (Some (JStr ''system'')) (Some (JStr ''s-1'')))\<lparr>msg_subtype := Some (JStr ''init'')\<rparr>], p)"
  using sample_lines_plain(1)
  by (simp add: parseLine_def parseLine_try_def sampleDecoder_def initRecord_def
      normalizeMessage_def truthyContent_def messageContent_def finishBase_def baseMsg_def)

lemma parse_assistantLine:
  "parseLine sampleDecoder assistantLine p
     = Inr (Some [(message (Some (JStr ''assistant'')) (Some (JStr ''s-1'')))
                    \<lparr>msg_content := Some (JStr ''hi''),
                     msg_role := Some (JStr ''assistant'')\<rparr>], p)"
  using sample_lines_plain(2) sample_lines_distinct
  by (simp add: parseLine_def parseLine_try_def sampleDecoder_def assistantRecord_def
      rawMessage_def textBlock_def normalizeMessage_def truthyContent_def messageContent_def
      assistantBlock_def baseMsg_def)

lemma parse_resultLine:
  "parseLine sampleDecoder resultLine p
     = Inr (Some [(message (Some (JStr ''result'')) (Some (JStr ''s-2'')))
                    \<lparr>msg_content := Some (JStr ''done'')\<rparr>], p)"
  using sample_lines_plain(3) sample_lines_distinct
  by (simp add: parseLine_def parseLine_try_def sampleDecoder_def resultRecord_def
      normalizeMessage_def truthyContent_def messageContent_def finishBase_def baseMsg_def)

lemma trim_Nil: "trim [] = []"
  by (simp add: trim_def)

lemmas run_eval =
  trim_Nil bufferedEvents_def lastSessionId_def lastResultText_def isFinalResult_def
  execute_def spawn_def idleService_def onStdoutData_def onStderrData_def onTimeout_def
  abort_def split_nl_line split_nl_no_newline handleLine_def parse_initLine parse_assistantLine
  parse_resultLine handleParsed_def handleFinal_def Let_def message_def onClose_def
  flushBuffer_def resolveOutcome_def

subsection \<open>The outcome of a run\<close>

text \<open>
  C1. Take any run in which the process closes with exit code \<open>code\<close> after some
  output, timer and abort events. The promise resolves, and the outcome has
  \<open>success = true\<close> if and only if the code is 0 or the final text accumulated by then
  is non-empty; in particular a non-empty final text gives success whatever the code
  is. A successful outcome carries that final text. A failed outcome carries as its
  error the text the process wrote to its error channel or, when that is empty, the
  message \<open>Process exited with code\<close> followed by the code.
\<close>

theorem outcome_success_iff:
  assumes "list_all streaming pre"
  shows "\<exists>r x. execute J proc (pre @ Closed code # rest) s = (Some (Resolved r), x)
     \<and> (r_success r \<longleftrightarrow> code = Some 0 \<or> finalContent x \<noteq> [])
     \<and> (finalContent x \<noteq> [] \<longrightarrow> r_success r)
     \<and> (r_success r \<longrightarrow> r_finalContent r = Some (finalContent x) \<and> r_error r = None)
     \<and> (\<not> r_success r \<longrightarrow>
          r_error r = Some (if stderrText pre \<noteq> [] then stderrText pre else exitMessage code))
     \<and> stderrData x = stderrText pre"
proof -
  let ?closing = "(snd (execute J proc pre s))\<lparr>timeoutArmed := False, activeProcess := None\<rparr>"
  let ?after = "flushBuffer J ?closing"
  have "stderrData (snd (execute J proc pre s)) = stderrText pre"
    using drive_stderr [OF assms, of J "spawn proc s"] by (simp add: execute_def spawn_def)
  then have err: "stderrData ?after = stderrText pre"
    using flushBuffer_fields [of J ?closing] by simp
  show ?thesis
    unfolding execute_close [OF assms]
    by (intro exI [of _ "resolveOutcome code ?after"] exI [of _ ?after])
      (simp add: resolveOutcome_def err)
qed

theorem outcome_success_iff_witness:
  "list_all streaming [StdoutData (assistantLine @ [CHR 0x0A])]
   \<and> fst (execute sampleDecoder 1
        [StdoutData (assistantLine @ [CHR 0x0A]), Closed (Some 0)] idleService)
      = Some (Resolved
          \<lparr>r_success = True, r_sessionId = Some (JStr ''s-1''),
           r_messages = [(message (Some (JStr ''assistant'')) (Some (JStr ''s-1'')))
                           \<lparr>msg_content := Some (JStr ''hi''),
                            msg_role := Some (JStr ''assistant'')\<rparr>],
           r_finalContent = Some ''hi'', r_error = None\<rparr>)
   \<and> fst (execute sampleDecoder 1
        [StdoutData (assistantLine @ [CHR 0x0A]), StderrData ''warn'', Closed (Some 1)]
        idleService)
      = Some (Resolved
          \<lparr>r_success = True, r_sessionId = Some (JStr ''s-1''),
           r_messages = [(message (Some (JStr ''assistant'')) (Some (JStr ''s-1'')))
                           \<lparr>msg_content := Some (JStr ''hi''),
                            msg_role := Some (JStr ''assistant'')\<rparr>],
           r_finalContent = Some ''hi'', r_error = None\<rparr>)
   \<and> fst (execute sampleDecoder 1 [StderrData ''boom'', Closed (Some 1)] idleService)
      = Some (Resolved
          \<lparr>r_success = False, r_sessionId = None, r_messages = [], r_finalContent = None,
           r_error = Some ''boom''\<rparr>)
   \<and> fst (execute sampleDecoder 1 [Closed (Some 2)] idleService)
      = Some (Resolved
          \<lparr>r_success = False, r_sessionId = None, r_messages = [], r_finalContent = None,
           r_error = Some ''Process exited with code 2''\<rparr>)"
  using outcome_success_iff [of "[StdoutData (assistantLine @ [CHR 0x0A])]" sampleDecoder 1
      "Some 0" "[]" idleService]
    outcome_success_iff [of "[StderrData ''boom'']" sampleDecoder 1 "Some 1" "[]" idleService]
    sample_lines_plain
  by (simp add: run_eval exitMessage_def show_int_def digit_def)

subsection \<open>The session id of an outcome\<close>

text \<open>
  C3, as the code has it. The process reports session id \<open>s-1\<close> in its first line and
  \<open>s-2\<close> in a later one; the outcome carries \<open>s-2\<close>, not the first non-empty id:
  \<open>sessionId\<close> is assigned anew for every parsed message that carries an id.
\<close>

theorem session_id_counterexample:
  "fst (execute sampleDecoder 1
     [StdoutData (initLine @ CHR 0x0A # resultLine @ [CHR 0x0A]), Closed (Some 0)] idleService)
   = Some (Resolved
        \<lparr>r_success = True, r_sessionId = Some (JStr ''s-2''),
         r_messages = [(message (Some (JStr ''system'')) (Some (JStr ''s-1'')))\<lparr>msg_subtype := Some (JStr ''init'')\<rparr>,
                       (message (Some (JStr ''result'')) (Some (JStr ''s-2'')))
                         \<lparr>msg_content := Some (JStr ''done'')\<rparr>],
         r_finalContent = Some ''done'', r_error = None\<rparr>)"
  using sample_lines_plain by (simp add: run_eval)

text \<open>
  C3, amended. Within a single run, the session id of a successful outcome is the id
  carried by the last message, among those parsed from complete lines while the
  process was running, that has a non-empty session id (none if there is no such
  message): a later non-empty id replaces an earlier one. Messages parsed from the
  rest of the buffer when the process closes are appended to the outcome's messages
  but do not change the id. A failed outcome carries no session id.
\<close>

theorem session_id_last_wins:
  assumes "list_all streaming pre"
  shows "\<exists>r. fst (execute J proc (pre @ Closed code # rest) s) = Some (Resolved r)
     \<and> (r_success r \<longrightarrow> r_sessionId r = lastSessionId (messages (snd (execute J proc pre s))))
     \<and> (\<not> r_success r \<longrightarrow> r_sessionId r = None)
     \<and> r_messages r = messages (snd (execute J proc pre s))
                        @ bufferedEvents J (snd (execute J proc pre s))
"
proof -
  let ?before = "snd (execute J proc pre s)"
  let ?closing = "?before\<lparr>timeoutArmed := False, activeProcess := None\<rparr>"
  have "tracked ?before"
    using drive_tracked [OF assms spawn_tracked] by (simp add: execute_def)
  then have sid: "sessionId (flushBuffer J ?closing) = lastSessionId (messages ?before)"
    using flushBuffer_fields [of J ?closing] by (simp add: tracked_def)
  have msgs: "messages (flushBuffer J ?closing) = messages ?before @ bufferedEvents J ?before"
    using flushBuffer_fields [of J ?closing] by (simp add: bufferedEvents_closing)
  show ?thesis
    unfolding execute_close [OF assms]
    by (intro exI [of _ "resolveOutcome code (flushBuffer J ?closing)"])
      (simp add: resolveOutcome_def sid msgs)
qed

theorem session_id_last_wins_witness:
  "list_all streaming [StdoutData (initLine @ CHR 0x0A # assistantLine @ [CHR 0x0A]),
                       StdoutData resultLine]
   \<and> messages (snd (execute sampleDecoder 1
        [StdoutData (initLine @ CHR 0x0A # assistantLine @ [CHR 0x0A]), StdoutData resultLine]
        idleService))
      = [(message (Some (JStr ''system'')) (Some (JStr ''s-1'')))\<lparr>msg_subtype := Some (JStr ''init'')\<rparr>,
         (message (Some (JStr ''assistant'')) (Some (JStr ''s-1'')))
           \<lparr>msg_content := Some (JStr ''hi''), msg_role := Some (JStr ''assistant'')\<rparr>]
   \<and> fst (execute sampleDecoder 1
        [StdoutData (initLine @ CHR 0x0A # assistantLine @ [CHR 0x0A]), StdoutData resultLine,
         Closed (Some 0)] idleService)
      = Some (Resolved
          \<lparr>r_success = True, r_sessionId = Some (JStr ''s-1''),
           r_messages = [(message (Some (JStr ''system'')) (Some (JStr ''s-1'')))\<lparr>msg_subtype := Some (JStr ''init'')\<rparr>,
                         (message (Some (JStr ''assistant'')) (Some (JStr ''s-1'')))
                           \<lparr>msg_content := Some (JStr ''hi''),
                            msg_role := Some (JStr ''assistant'')\<rparr>,
                         (message (Some (JStr ''result'')) (Some (JStr ''s-2'')))
                           \<lparr>msg_content := Some (JStr ''done'')\<rparr>],
           r_finalContent = Some ''done'', r_error = None\<rparr>)"
  using session_id_last_wins [of "[StdoutData (initLine @ CHR 0x0A # assistantLine @ [CHR 0x0A]),
      StdoutData resultLine]" sampleDecoder 1 "Some 0" "[]" idleService]
    sample_lines_plain
  by (simp add: run_eval)

subsection \<open>Runs ended by the timer or by abort\<close>

text \<open>
  C4, as the code has it. The process has written a complete result record without
  the closing line feed when the timer expires and \<open>SIGTERM\<close> is sent: nothing has been
  parsed yet and no text is accumulated. When the process then closes, the \<open>close\<close>
  handler parses the buffer all the same, and the run resolves as a success carrying
  the text of that record.
\<close>

theorem terminated_run_counterexample:
  "buffer (snd (execute sampleDecoder 1 [StdoutData resultLine, TimeoutExpired] idleService))
     = resultLine
   \<and> messages (snd (execute sampleDecoder 1 [StdoutData resultLine, TimeoutExpired] idleService))
     = []
   \<and> finalContent (snd (execute sampleDecoder 1 [StdoutData resultLine, TimeoutExpired] idleService))
     = []
   \<and> sigterms (snd (execute sampleDecoder 1 [StdoutData resultLine, TimeoutExpired] idleService))
     = [1]
   \<and> fst (execute sampleDecoder 1 [StdoutData resultLine, TimeoutExpired, Closed None] idleService)
     = Some (Resolved
        \<lparr>r_success = True, r_sessionId = None,
         r_messages = [(message (Some (JStr ''result'')) (Some (JStr ''s-2'')))
                         \<lparr>msg_content := Some (JStr ''done'')\<rparr>],
         r_finalContent = Some ''done'', r_error = None\<rparr>)"
  using sample_lines_plain by (simp add: run_eval)

text \<open>
  C4, amended. For every run in which the timer expired or \<open>abort()\<close> was called before
  the process closed, \<open>SIGTERM\<close> has been sent to the process, and the output still
  held in the line buffer when the process closes is parsed one last time, as after
  any other exit: the messages parsed from it are appended to the outcome's messages,
  and the final text is the text of the last \<open>result\<close> message with non-empty content
  among them, or else the text accumulated before. The run resolves as a failure
  exactly when the exit code is not 0 and that final text is empty.
\<close>

theorem terminated_run_parses_buffer:
  assumes "list_all streaming pre"
    and "TimeoutExpired \<in> set pre \<or> AbortCalled \<in> set pre"
  shows "\<exists>r x. execute J proc (pre @ Closed code # rest) s = (Some (Resolved r), x)
     \<and> proc \<in> set (sigterms x)
     \<and> r_messages r = messages (snd (execute J proc pre s))
                        @ bufferedEvents J (snd (execute J proc pre s))
     \<and> finalContent x = lastResultText (bufferedEvents J (snd (execute J proc pre s)))
                          (finalContent (snd (execute J proc pre s)))
     \<and> (r_success r \<longleftrightarrow> code = Some 0 \<or> finalContent x \<noteq> [])"
proof -
  let ?before = "snd (execute J proc pre s)"
  let ?closing = "?before\<lparr>timeoutArmed := False, activeProcess := None\<rparr>"
  let ?after = "flushBuffer J ?closing"
  have "signalled proc ?before"
    using drive_killed [OF assms(1) spawn_killable assms(2)] by (simp add: execute_def)
  then have killed: "proc \<in> set (sigterms ?after)"
    by (simp add: flushBuffer_sigterms signalled_def)
  have msgs: "messages ?after = messages ?before @ bufferedEvents J ?before"
    using flushBuffer_fields [of J ?closing] by (simp add: bufferedEvents_closing)
  have final: "finalContent ?after = lastResultText (bufferedEvents J ?before) (finalContent ?before)"
    using flushBuffer_fields [of J ?closing] by (simp add: bufferedEvents_closing)
  have "r_messages (resolveOutcome code ?after) = messages ?after"
    and "r_success (resolveOutcome code ?after) \<longleftrightarrow> code = Some 0 \<or> finalContent ?after \<noteq> []"
    by (simp_all add: resolveOutcome_def)
  then show ?thesis
    unfolding execute_close [OF assms(1)]
    using killed msgs final by (intro exI [of _ "resolveOutcome code ?after"] exI [of _ ?after]) simp
qed

theorem terminated_run_parses_buffer_witness:
  "list_all streaming [StdoutData (assistantLine @ CHR 0x0A # resultLine), AbortCalled]
   \<and> buffer (snd (execute sampleDecoder 1
        [StdoutData (assistantLine @ CHR 0x0A # resultLine), AbortCalled] idleService))
      = resultLine
   \<and> fst (execute sampleDecoder 1
        [StdoutData (assistantLine @ CHR 0x0A # resultLine), AbortCalled, Closed None]
        idleService)
      = Some (Resolved
          \<lparr>r_success = True, r_sessionId = Some (JStr ''s-1''),
           r_messages = [(message (Some (JStr ''assistant'')) (Some (JStr ''s-1'')))
                           \<lparr>msg_content := Some (JStr ''hi''),
                            msg_role := Some (JStr ''assistant'')\<rparr>,
                         (message (Some (JStr ''result'')) (Some (JStr ''s-2'')))
                           \<lparr>msg_content := Some (JStr ''done'')\<rparr>],
           r_finalContent = Some ''done'', r_error = None\<rparr>)
   \<and> fst (execute sampleDecoder 1 [TimeoutExpired, Closed None] idleService)
      = Some (Resolved
          \<lparr>r_success = False, r_sessionId = None, r_messages = [], r_finalContent = None,
           r_error = Some ''Process exited with code null''\<rparr>)"
  using terminated_run_parses_buffer [of
      "[StdoutData (assistantLine @ CHR 0x0A # resultLine), AbortCalled]" sampleDecoder 1 None
      "[]" idleService]
    terminated_run_parses_buffer [of "[TimeoutExpired]" sampleDecoder 1 None "[]" idleService]
    sample_lines_plain
  by (simp add: run_eval exitMessage_def)

section \<open>Properties of the session manager\<close>

subsection \<open>Validation of stored records\<close>

lemma string_member_object:
  "typeof_string (member v k) \<Longrightarrow> truthy v \<and> typeof_object v"
  by (cases v) simp_all

lemma validMessages_iff:
  "validMessages msgs \<longleftrightarrow>
     list_all (\<lambda>msg. typeof_string (member msg ''id'')
                 \<and> (member msg ''role'' = Some (JStr ''user'')
                    \<or> member msg ''role'' = Some (JStr ''assistant''))) msgs"
proof (induction msgs)
  case Nil
  show ?case by simp
next
  case (Cons msg rest)
  then show ?case using string_member_object [of msg "''id''"] by auto
qed

lemma isValidSession_iff:
  "isValidSession obj \<longleftrightarrow>
     typeof_string (member obj ''id'') \<and> member obj ''id'' \<noteq> Some (JStr [])
     \<and> isArray (member obj ''messages'')
     \<and> typeof_number (member obj ''createdAt'')
     \<and> typeof_number (member obj ''updatedAt'')
     \<and> validMessages (messagesOf obj)"
  using string_member_object [of obj "''id''"]
  by (auto simp: isValidSession_def isArray_def messagesOf_def split: option.splits json.splits)

lemma isValidSession_amended:
  assumes "\<forall>msg\<in>set (messagesOf obj). member msg ''role'' \<noteq> Some (JStr ''system'')"
  shows "isValidSession obj \<longleftrightarrow> recordAsClaimed obj \<and> member obj ''id'' \<noteq> Some (JStr [])"
proof -
  have "validMessages (messagesOf obj) \<longleftrightarrow>
          list_all (\<lambda>msg. typeof_string (member msg ''id'') \<and> closedRole (member msg ''role''))
            (messagesOf obj)"
    using assms unfolding validMessages_iff closedRole_def list_all_iff by blast
  then show ?thesis
    unfolding isValidSession_iff recordAsClaimed_def by blast
qed

lemma loadFile_decoded:
  assumes "endsWith filePath ''.json''" "adapter_read a filePath = Inr content"
    "J content = Inr obj"
  shows "loadFile J a filePath m =
           (if isValidSession obj
            then (case member obj ''id'' of
                    Some (JStr i) \<Rightarrow> m\<lparr>sessions := (sessions m)(i \<mapsto> obj)\<rparr> | _ \<Rightarrow> m)
            else m)"
  using assms by (simp add: loadFile_def)

lemma missing_updatedAt_invalid:
  "member obj ''updatedAt'' = None \<Longrightarrow> \<not> isValidSession obj"
  unfolding isValidSession_iff by simp

lemma loadFile_accepts:
  assumes "endsWith filePath ''.json''" "adapter_read a filePath = Inr content"
    "J content = Inr obj" "isValidSession obj"
  shows "\<exists>i. member obj ''id'' = Some (JStr i)
             \<and> loadFile J a filePath m = m\<lparr>sessions := (sessions m)(i \<mapsto> obj)\<rparr>"
proof -
  from \<open>isValidSession obj\<close> have "typeof_string (member obj ''id'')"
    unfolding isValidSession_iff by simp
  then obtain i where "member obj ''id'' = Some (JStr i)"
    by (cases "member obj ''id''" rule: typeof_string.cases) auto
  then show ?thesis using assms by (simp add: loadFile_decoded)
qed

lemma loadFile_skips:
  assumes "endsWith filePath ''.json''" "adapter_read a filePath = Inr content"
    "J content = Inr obj" "\<not> isValidSession obj"
  shows "loadFile J a filePath m = m"
  using assms by (simp add: loadFile_decoded)

lemma load_one_valid_one_broken:
  assumes folder: "adapter_exists a folder = Inr True"
      "adapter_list a folder = Inr [f1, f2] \<or> adapter_list a folder = Inr [f2, f1]"
    and valid: "endsWith f1 ''.json''" "adapter_read a f1 = Inr c1" "J c1 = Inr valid"
      "isValidSession valid" "member valid ''id'' = Some (JStr i)"
    and broken: "endsWith f2 ''.json''" "adapter_read a f2 = Inr c2" "J c2 = Inr broken"
      "member broken ''updatedAt'' = None"
  shows "sessions (loadSessions J a folder emptyManager) = [i \<mapsto> valid]"
proof -
  have skip: "loadFile J a f2 m = m" for m
    using broken missing_updatedAt_invalid [of broken] by (simp add: loadFile_decoded)
  have keep: "loadFile J a f1 m = m\<lparr>sessions := (sessions m)(i \<mapsto> valid)\<rparr>" for m
    using valid by (simp add: loadFile_decoded)
  from folder(2) show ?thesis
  proof
    assume "adapter_list a folder = Inr [f1, f2]"
    then show ?thesis using folder(1) by (simp add: loadSessions_def skip keep emptyManager_def)
  next
    assume "adapter_list a folder = Inr [f2, f1]"
    then show ?thesis using folder(1) by (simp add: loadSessions_def skip keep emptyManager_def)
  qed
qed

text \<open>
  C8, as the code has it. A stored record whose id is the empty string has a string id
  and passes every check the claim lists, yet \<open>isValidSession\<close> rejects it: the
  check on the id is \<open>typeof session.id !== 'string' || !session.id\<close>.
\<close>

theorem stored_records_claim_counterexample:
  "recordAsClaimed emptyIdRecord \<and> \<not> isValidSession emptyIdRecord"
  by (simp add: recordAsClaimed_def emptyIdRecord_def isValidSession_def isArray_def
      messagesOf_def)

text \<open>
  The check on the role of a message accepts \<open>user\<close> and \<open>assistant\<close> only, so a
  record holding a message of role \<open>system\<close>, a role of the type \<open>ChatMessage\<close>, is
  rejected as well.
\<close>

lemma isValidSession_systemRoleRecord:
  "recordAsClaimed systemRoleRecord \<and> \<not> isValidSession systemRoleRecord"
  by (simp add: recordAsClaimed_def systemRoleRecord_def isValidSession_def isArray_def
      messagesOf_def closedRole_def)

text \<open>
  C8, amended. For a record none of whose messages has the role \<open>system\<close>,
  \<open>isValidSession\<close> accepts it if and only if it has a non-empty string id, a message
  list, numeric \<open>createdAt\<close> and \<open>updatedAt\<close>, and every message has a string id and a
  role of the closed set. For a file with the suffix \<open>.json\<close> that is read and
  decoded, \<open>loadFile\<close> stores the record under its id when it is accepted and leaves
  the manager untouched when it is not, so the loop goes on to the next file. A
  folder that lists, in either order, one accepted record and one record without
  \<open>updatedAt\<close> loads into an empty manager as exactly one session, the accepted one.
\<close>

theorem stored_records_validated:
  "((\<forall>msg\<in>set (messagesOf obj). member msg ''role'' \<noteq> Some (JStr ''system'')) \<longrightarrow>
      (isValidSession obj \<longleftrightarrow> recordAsClaimed obj \<and> member obj ''id'' \<noteq> Some (JStr [])))
   \<and> (endsWith filePath ''.json'' \<and> adapter_read a filePath = Inr content
        \<and> J content = Inr obj \<longrightarrow>
        (isValidSession obj \<longrightarrow>
           (\<exists>i. member obj ''id'' = Some (JStr i)
                \<and> loadFile J a filePath m = m\<lparr>sessions := (sessions m)(i \<mapsto> obj)\<rparr>))
        \<and> (\<not> isValidSession obj \<longrightarrow> loadFile J a filePath m = m))
   \<and> (adapter_exists a folder = Inr True
        \<and> (adapter_list a folder = Inr [f1, f2] \<or> adapter_list a folder = Inr [f2, f1])
        \<and> endsWith f1 ''.json'' \<and> adapter_read a f1 = Inr c1 \<and> J c1 = Inr valid
        \<and> recordAsClaimed valid \<and> member valid ''id'' = Some (JStr i) \<and> i \<noteq> []
        \<and> (\<forall>msg\<in>set (messagesOf valid). member msg ''role'' \<noteq> Some (JStr ''system''))
        \<and> endsWith f2 ''.json'' \<and> adapter_read a f2 = Inr c2 \<and> J c2 = Inr broken
        \<and> member broken ''updatedAt'' = None \<longrightarrow>
        sessions (loadSessions J a folder emptyManager) = [i \<mapsto> valid])"
proof (intro conjI impI)
  assume "\<forall>msg\<in>set (messagesOf obj). member msg ''role'' \<noteq> Some (JStr ''system'')"
  then show "isValidSession obj \<longleftrightarrow> recordAsClaimed obj \<and> member obj ''id'' \<noteq> Some (JStr [])"
    by (rule isValidSession_amended)
next
  assume "endsWith filePath ''.json'' \<and> adapter_read a filePath = Inr content
            \<and> J content = Inr obj" and "isValidSession obj"
  then show "\<exists>i. member obj ''id'' = Some (JStr i)
                \<and> loadFile J a filePath m = m\<lparr>sessions := (sessions m)(i \<mapsto> obj)\<rparr>"
    using loadFile_accepts by blast
next
  assume "endsWith filePath ''.json'' \<and> adapter_read a filePath = Inr content
            \<and> J content = Inr obj" and "\<not> isValidSession obj"
  then show "loadFile J a filePath m = m"
    using loadFile_skips by blast
next
  assume h: "adapter_exists a folder = Inr True
        \<and> (adapter_list a folder = Inr [f1, f2] \<or> adapter_list a folder = Inr [f2, f1])
        \<and> endsWith f1 ''.json'' \<and> adapter_read a f1 = Inr c1 \<and> J c1 = Inr valid
        \<and> recordAsClaimed valid \<and> member valid ''id'' = Some (JStr i) \<and> i \<noteq> []
        \<and> (\<forall>msg\<in>set (messagesOf valid). member msg ''role'' \<noteq> Some (JStr ''system''))
        \<and> endsWith f2 ''.json'' \<and> adapter_read a f2 = Inr c2 \<and> J c2 = Inr broken
        \<and> member broken ''updatedAt'' = None"
  then have "isValidSession valid"
    using isValidSession_amended [of valid] by simp
  with h show "sessions (loadSessions J a folder emptyManager) = [i \<mapsto> valid]"
    using load_one_valid_one_broken [of a folder f1 f2 c1 J valid i c2 broken] by blast
qed

theorem stored_records_validated_witness:
  "list_all (\<lambda>msg. member msg ''role'' \<noteq> Some (JStr ''system'')) (messagesOf goodRecord)
   \<and> isValidSession goodRecord
   \<and> recordAsClaimed goodRecord
   \<and> endsWith ''.claude-sessions/s2.json'' ''.json''
   \<and> adapter_read sampleAdapter ''.claude-sessions/s2.json'' = Inr badText
   \<and> sampleJSON badText = Inr badRecord
   \<and> \<not> isValidSession badRecord
   \<and> loadFile sampleJSON sampleAdapter ''.claude-sessions/s2.json'' emptyManager = emptyManager
   \<and> adapter_list sampleAdapter ''.claude-sessions''
        = Inr [''.claude-sessions/s1.json'', ''.claude-sessions/s2.json'']
   \<and> member badRecord ''updatedAt'' = None
   \<and> sessions (loadSessions sampleJSON sampleAdapter ''.claude-sessions'' emptyManager)
        = [''s1'' \<mapsto> goodRecord]"
  using stored_records_validated [of goodRecord "''.claude-sessions/s2.json''" sampleAdapter
      badText sampleJSON emptyManager "''.claude-sessions''" "''.claude-sessions/s1.json''"
      "''.claude-sessions/s2.json''" goodText goodRecord "''s1''" badText badRecord]
  by (simp add: goodRecord_def badRecord_def goodText_def badText_def sampleJSON_def
      sampleAdapter_def sampleRead_def endsWith_def messagesOf_def recordAsClaimed_def
      isArray_def closedRole_def isValidSession_def loadFile_def)

subsection \<open>Creating a session\<close>

lemma generateId_nonempty: "generateId env \<noteq> []"
  by (simp add: generateId_def)

text \<open>
  C9, as the code has it. \<open>createdAt\<close> and \<open>updatedAt\<close> come from two successive calls
  of \<open>Date.now()\<close>; when the clock advances between them the two time stamps differ.
\<close>

theorem createSession_timestamps_counterexample:
  "member (fst (createSession None tickingClock emptyManager)) ''createdAt''
     \<noteq> member (fst (createSession None tickingClock emptyManager)) ''updatedAt''"
  by (simp add: createSession_def tickingClock_def Let_def)

text \<open>
  C9, amended. \<open>createSession\<close> always returns a session with an empty message list
  whose \<open>createdAt\<close> and \<open>updatedAt\<close> are the two clock readings taken while it is built,
  equal whenever the clock did not advance between the two reads. It stores the
  session under its fresh id and makes it the active one, so \<open>getActiveSession\<close>
  right afterwards returns the session just created.
\<close>

theorem createSession_becomes_active:
  "member (fst (createSession name env m)) ''messages'' = Some (JArr [])
   \<and> member (fst (createSession name env m)) ''createdAt'' = Some (JNum (createdNow env))
   \<and> member (fst (createSession name env m)) ''updatedAt'' = Some (JNum (updatedNow env))
   \<and> (createdNow env = updatedNow env \<longrightarrow>
        member (fst (createSession name env m)) ''createdAt''
          = member (fst (createSession name env m)) ''updatedAt'')
   \<and> activeSessionId (snd (createSession name env m)) = Some (generateId env)
   \<and> getSession (generateId env) (snd (createSession name env m))
        = Some (fst (createSession name env m))
   \<and> getActiveSession (snd (createSession name env m)) = Some (fst (createSession name env m))"
  by (simp add: createSession_def Let_def getSession_def getActiveSession_def
      generateId_nonempty)

theorem createSession_becomes_active_witness:
  "createdNow steadyClock = updatedNow steadyClock
   \<and> member (fst (createSession (Some ''Notes'') steadyClock sampleManager)) ''createdAt''
        = member (fst (createSession (Some ''Notes'') steadyClock sampleManager)) ''updatedAt''
   \<and> generateId steadyClock = ''session-1767225600500-z8y7x6w5v''
   \<and> getActiveSession (snd (createSession (Some ''Notes'') steadyClock sampleManager))
        = Some (JObj [(''id'', JStr ''session-1767225600500-z8y7x6w5v''),
                      (''name'', JStr ''Notes''), (''messages'', JArr []), (''context'', JArr []),
                      (''createdAt'', JNum 1767225600500), (''updatedAt'', JNum 1767225600500)])"
  using createSession_becomes_active [of "Some ''Notes''" steadyClock sampleManager]
  by (simp add: steadyClock_def createSession_def Let_def generateId_def show_int_def digit_def
      getActiveSession_def getSession_def)

subsection \<open>Deleting a session\<close>

text \<open>
  C10. \<open>deleteSession\<close> removes the entry from the map before it touches the vault:
  afterwards \<open>getSession\<close> finds nothing under the deleted id, whatever the vault holds
  and whether or not \<open>vault.delete\<close> throws, and every other id maps to what it mapped
  to before.
\<close>

theorem deleteSession_removes_entry:
  "getSession sid (fst (deleteSession path sid (m, v))) = None
   \<and> (\<forall>other. other \<noteq> sid \<longrightarrow>
         getSession other (fst (deleteSession path sid (m, v))) = getSession other m)"
  by (simp add: deleteSession_def getSession_def Let_def
      split: option.splits AbstractFile.splits sum.splits)

theorem deleteSession_removes_entry_witness:
  "getSession ''a'' sampleManager \<noteq> None
   \<and> vault_delete ''.claude-sessions/a.json'' lockedVault = Inl IOError
   \<and> getSession ''a''
        (fst (deleteSession ''.claude-sessions'' ''a'' (sampleManager, lockedVault))) = None
   \<and> ''b'' \<noteq> ''a''
   \<and> getSession ''b''
        (fst (deleteSession ''.claude-sessions'' ''a'' (sampleManager, lockedVault)))
       = Some (sampleSession ''b'')
   \<and> snd (deleteSession ''.claude-sessions'' ''a'' (sampleManager, lockedVault)) = lockedVault"
  using deleteSession_removes_entry [of "''a''" "''.claude-sessions''" sampleManager lockedVault]
  by (simp add: sampleManager_def lockedVault_def getSession_def vault_delete_def
      deleteSession_def)

end
